theory Spec2Isabelle
  imports Complex_Main "HOL-Library.Word"
begin

section \<open>Numbers\<close>

text \<open>
  The program computes on C++ \<^verbatim>\<open>float\<close>. Two embeddings of this arithmetic are used.

  The first one, in this section, idealises it: a value is an exact real number or the
  not-a-number value \<open>NaN\<close>. Rounding, overflow to infinity and underflow are not modelled,
  so a literal such as \<^verbatim>\<open>0.005f\<close> stands for the rational it is written as. Arithmetic
  propagates \<open>NaN\<close> and every ordered comparison with \<open>NaN\<close> is false, as in IEEE 754.
  Division gives \<open>NaN\<close> for every zero divisor, where IEEE 754 gives an infinity for a
  nonzero dividend. This embedding carries the statements that no rounding decides: the
  fields a tick writes, the two clamps of the bias value against constants, the bias
  scenario, the index ranges of the batches and the interleavings of the workers.

  The second one (section \<open>Binary32 numbers\<close>) rounds every operation to IEEE 754 binary32
  and has the two infinities. It carries the statements that rounding, overflow or underflow
  do decide: the tests of the neighbour scan and the speed control.
\<close>

datatype flt = Num real | NaN

fun fadd :: "flt \<Rightarrow> flt \<Rightarrow> flt" where
  "fadd (Num a) (Num b) = Num (a + b)"
| "fadd _ _ = NaN"

fun fsub :: "flt \<Rightarrow> flt \<Rightarrow> flt" where
  "fsub (Num a) (Num b) = Num (a - b)"
| "fsub _ _ = NaN"

fun fmul :: "flt \<Rightarrow> flt \<Rightarrow> flt" where
  "fmul (Num a) (Num b) = Num (a * b)"
| "fmul _ _ = NaN"

fun fdiv :: "flt \<Rightarrow> flt \<Rightarrow> flt" where
  "fdiv (Num a) (Num b) = (if b = 0 then NaN else Num (a / b))"
| "fdiv _ _ = NaN"

text \<open>\<open>a < b\<close> on floats; \<open>a > b\<close> is \<open>fless b a\<close>.\<close>

fun fless :: "flt \<Rightarrow> flt \<Rightarrow> bool" where
  "fless (Num a) (Num b) = (a < b)"
| "fless _ _ = False"


text \<open>\<^verbatim>\<open>std::abs\<close> and \<^verbatim>\<open>std::sqrt\<close>.\<close>

fun fabs :: "flt \<Rightarrow> flt" where
  "fabs (Num a) = Num \<bar>a\<bar>"
| "fabs NaN = NaN"

fun fsqrt :: "flt \<Rightarrow> flt" where
  "fsqrt (Num a) = (if a < 0 then NaN else Num (sqrt a))"
| "fsqrt NaN = NaN"

text \<open>
  \<^verbatim>\<open>std::min(a, b)\<close> is \<^verbatim>\<open>(b < a) ? b : a\<close> and \<^verbatim>\<open>std::max(a, b)\<close> is
  \<^verbatim>\<open>(a < b) ? b : a\<close>.
\<close>

definition std_min :: "flt \<Rightarrow> flt \<Rightarrow> flt" where
  "std_min a b = (if fless b a then b else a)"

definition std_max :: "flt \<Rightarrow> flt \<Rightarrow> flt" where
  "std_max a b = (if fless a b then b else a)"

text \<open>\<^verbatim>\<open>std::fmin\<close> and \<^verbatim>\<open>std::fmax\<close> return the other argument when one is \<open>NaN\<close>.\<close>

fun fmin :: "flt \<Rightarrow> flt \<Rightarrow> flt" where
  "fmin (Num a) (Num b) = Num (min a b)"
| "fmin NaN b = b"
| "fmin a NaN = a"

fun fmax :: "flt \<Rightarrow> flt \<Rightarrow> flt" where
  "fmax (Num a) (Num b) = Num (max a b)"
| "fmax NaN b = b"
| "fmax a NaN = a"

text \<open>\<^verbatim>\<open>float clamp(float value, float min, float max)\<close>\<close>

definition clamp :: "flt \<Rightarrow> flt \<Rightarrow> flt \<Rightarrow> flt" where
  "clamp val lo hi = fmax lo (fmin val hi)"

section \<open>Constants\<close>

definition WIDTH :: flt where "WIDTH = Num 800"
definition HEIGHT :: flt where "HEIGHT = Num 600"
definition VISUAL_RANGE :: flt where "VISUAL_RANGE = Num 75"
definition PROTECTED_RANGE :: flt where "PROTECTED_RANGE = Num 20"
definition CENTERING_FACTOR :: flt where "CENTERING_FACTOR = Num (5 / 1000)"
definition AVOID_FACTOR :: flt where "AVOID_FACTOR = Num (5 / 100)"
definition MATCHING_FACTOR :: flt where "MATCHING_FACTOR = Num (5 / 100)"
definition TURN_FACTOR :: flt where "TURN_FACTOR = Num 1"
definition MIN_SPEED :: flt where "MIN_SPEED = Num 10"
definition MAX_SPEED :: flt where "MAX_SPEED = Num 40"
definition MAX_BIAS :: flt where "MAX_BIAS = Num (25 / 100)"
definition BIAS_INCREMENT :: flt where "BIAS_INCREMENT = Num (5 / 1000)"

lemmas consts_defs =
  WIDTH_def HEIGHT_def VISUAL_RANGE_def PROTECTED_RANGE_def CENTERING_FACTOR_def
  AVOID_FACTOR_def MATCHING_FACTOR_def TURN_FACTOR_def MIN_SPEED_def MAX_SPEED_def
  MAX_BIAS_def BIAS_INCREMENT_def

section \<open>The agent store\<close>

text \<open>\<^verbatim>\<open>struct Boid\<close>; \<open>scout_group\<close> is 0 (no bias), 1 (right) or 2 (left).\<close>

record Boid =
  x :: flt
  y :: flt
  vx :: flt
  vy :: flt
  biasval :: flt
  scout_group :: int

section \<open>The neighbour scan\<close>

text \<open>
  The local accumulators of one iteration of the outer loop. The counter is an \<^verbatim>\<open>int\<close>
  that is incremented at most once per other boid; it is modelled without a bound.
\<close>

record Acc =
  xpos_avg :: flt
  ypos_avg :: flt
  xvel_avg :: flt
  yvel_avg :: flt
  neighboring_boids :: int
  close_dx :: flt
  close_dy :: flt

definition acc0 :: Acc where
  "acc0 = \<lparr>xpos_avg = Num 0, ypos_avg = Num 0, xvel_avg = Num 0, yvel_avg = Num 0,
           neighboring_boids = 0, close_dx = Num 0, close_dy = Num 0\<rparr>"

text \<open>The body of the inner loop for one \<open>other\<close> that is not the boid itself.\<close>

definition scan_step :: "Boid \<Rightarrow> Acc \<Rightarrow> Boid \<Rightarrow> Acc" where
  "scan_step boid acc other =
     (let dx = fsub (x boid) (x other);
          dy = fsub (y boid) (y other)
      in if fless (fabs dx) VISUAL_RANGE \<and> fless (fabs dy) VISUAL_RANGE then
           (let dist_squared = fadd (fmul dx dx) (fmul dy dy)
            in if fless dist_squared (fmul PROTECTED_RANGE PROTECTED_RANGE) then
                 acc\<lparr>close_dx := fadd (close_dx acc) dx,
                     close_dy := fadd (close_dy acc) dy\<rparr>
               else if fless dist_squared (fmul VISUAL_RANGE VISUAL_RANGE) then
                 acc\<lparr>xpos_avg := fadd (xpos_avg acc) (x other),
                     ypos_avg := fadd (ypos_avg acc) (y other),
                     xvel_avg := fadd (xvel_avg acc) (vx other),
                     yvel_avg := fadd (yvel_avg acc) (vy other),
                     neighboring_boids := neighboring_boids acc + 1\<rparr>
               else acc)
         else acc)"

text \<open>
  \<^verbatim>\<open>for (const auto& other : boids) { if (&boid == &other) continue; ... }\<close>:
  the boid is the element at index \<open>i\<close>, and the element at the same address is the one
  at the same index.
\<close>

definition scan :: "Boid list \<Rightarrow> nat \<Rightarrow> Acc" where
  "scan boids i =
     foldl (\<lambda>acc j. if j = i then acc else scan_step (boids ! i) acc (boids ! j))
       acc0 [0..<length boids]"

section \<open>The velocity update of one boid\<close>

definition cohesion_alignment :: "Acc \<Rightarrow> Boid \<Rightarrow> Boid" where
  "cohesion_alignment acc boid =
     (if neighboring_boids acc > 0 then
        (let n = Num (of_int (neighboring_boids acc));
             xpos = fdiv (xpos_avg acc) n;
             ypos = fdiv (ypos_avg acc) n;
             xvel = fdiv (xvel_avg acc) n;
             yvel = fdiv (yvel_avg acc) n
         in boid\<lparr>vx := fadd (vx boid)
                       (fadd (fmul (fsub xpos (x boid)) CENTERING_FACTOR)
                             (fmul (fsub xvel (vx boid)) MATCHING_FACTOR)),
                 vy := fadd (vy boid)
                       (fadd (fmul (fsub ypos (y boid)) CENTERING_FACTOR)
                             (fmul (fsub yvel (vy boid)) MATCHING_FACTOR))\<rparr>)
      else boid)"

definition separation :: "Acc \<Rightarrow> flt \<Rightarrow> Boid \<Rightarrow> Boid" where
  "separation acc deltaTime boid =
     boid\<lparr>vx := fadd (vx boid) (fmul (fmul (close_dx acc) AVOID_FACTOR) deltaTime),
          vy := fadd (vy boid) (fmul (fmul (close_dy acc) AVOID_FACTOR) deltaTime)\<rparr>"

definition boundary_turn :: "Boid \<Rightarrow> Boid" where
  "boundary_turn boid =
     (let b1 = (if fless (x boid) (Num 0) then boid\<lparr>vx := fadd (vx boid) TURN_FACTOR\<rparr> else boid);
          b2 = (if fless WIDTH (x b1) then b1\<lparr>vx := fsub (vx b1) TURN_FACTOR\<rparr> else b1);
          b3 = (if fless (y b2) (Num 0) then b2\<lparr>vy := fadd (vy b2) TURN_FACTOR\<rparr> else b2)
      in if fless HEIGHT (y b3) then b3\<lparr>vy := fsub (vy b3) TURN_FACTOR\<rparr> else b3)"

definition bias_dynamics :: "Boid \<Rightarrow> Boid" where
  "bias_dynamics boid =
     (if scout_group boid = 1 then
        (if fless (Num 0) (vx boid)
         then boid\<lparr>biasval := std_min MAX_BIAS (fadd (biasval boid) BIAS_INCREMENT)\<rparr>
         else boid\<lparr>biasval := std_max BIAS_INCREMENT (fsub (biasval boid) BIAS_INCREMENT)\<rparr>)
      else if scout_group boid = 2 then
        (if fless (vx boid) (Num 0)
         then boid\<lparr>biasval := std_min MAX_BIAS (fadd (biasval boid) BIAS_INCREMENT)\<rparr>
         else boid\<lparr>biasval := std_max BIAS_INCREMENT (fsub (biasval boid) BIAS_INCREMENT)\<rparr>)
      else boid)"

definition apply_bias :: "Boid \<Rightarrow> Boid" where
  "apply_bias boid =
     (if scout_group boid = 1 then
        boid\<lparr>vx := fadd (fmul (fsub (Num 1) (biasval boid)) (vx boid)) (biasval boid)\<rparr>
      else if scout_group boid = 2 then
        boid\<lparr>vx := fsub (fmul (fsub (Num 1) (biasval boid)) (vx boid)) (biasval boid)\<rparr>
      else boid)"

definition speed_of :: "Boid \<Rightarrow> flt" where
  "speed_of boid = fsqrt (fadd (fmul (vx boid) (vx boid)) (fmul (vy boid) (vy boid)))"

definition speed_control :: "Boid \<Rightarrow> Boid" where
  "speed_control boid =
     (let speed = speed_of boid
      in if fless speed MIN_SPEED \<or> fless MAX_SPEED speed then
           (let b1 = boid\<lparr>vx := fmul (fdiv (vx boid) speed) (clamp speed MIN_SPEED MAX_SPEED)\<rparr>
            in b1\<lparr>vy := fmul (fdiv (vy b1) speed) (clamp speed MIN_SPEED MAX_SPEED)\<rparr>)
         else boid)"

definition advance_position :: "flt \<Rightarrow> Boid \<Rightarrow> Boid" where
  "advance_position deltaTime boid =
     boid\<lparr>x := fadd (x boid) (fmul (vx boid) deltaTime),
          y := fadd (y boid) (fmul (vy boid) deltaTime)\<rparr>"

text \<open>
  The boid \<open>i\<close> as it reaches the bias steps: after the scan, cohesion and alignment,
  separation and the boundary turn.
\<close>

definition pre_bias :: "Boid list \<Rightarrow> nat \<Rightarrow> flt \<Rightarrow> Boid" where
  "pre_bias boids i deltaTime =
     (let acc = scan boids i
      in boundary_turn (separation acc deltaTime (cohesion_alignment acc (boids ! i))))"

text \<open>The boid \<open>i\<close> as it reaches the speed control: after the two bias steps.\<close>

definition pre_clamp :: "Boid list \<Rightarrow> nat \<Rightarrow> flt \<Rightarrow> Boid" where
  "pre_clamp boids i deltaTime = apply_bias (bias_dynamics (pre_bias boids i deltaTime))"

text \<open>
  One iteration of the outer loop. The two sources have the same loop body, character for
  character (\<^verbatim>\<open>main.cpp\<close> lines 41--109, \<^verbatim>\<open>main_parallel.cpp\<close> lines 48--116).
\<close>

definition update_boid :: "Boid list \<Rightarrow> nat \<Rightarrow> flt \<Rightarrow> Boid" where
  "update_boid boids i deltaTime =
     advance_position deltaTime (speed_control (pre_clamp boids i deltaTime))"

section \<open>The sequential tick\<close>

text \<open>
  \<^verbatim>\<open>for (auto& boid : boids)\<close>: the boids are updated in place in index order, so the
  scan of a later boid reads the new state of the earlier ones.
\<close>

definition update_prefix :: "Boid list \<Rightarrow> flt \<Rightarrow> nat \<Rightarrow> Boid list" where
  "update_prefix boids deltaTime k =
     foldl (\<lambda>bs i. bs[i := update_boid bs i deltaTime]) boids [0..<k]"

definition update_boids :: "Boid list \<Rightarrow> flt \<Rightarrow> Boid list" where
  "update_boids boids deltaTime = update_prefix boids deltaTime (length boids)"

text \<open>The main loop calls \<open>update_boids\<close> once per frame, with the frame's elapsed time.\<close>

definition run :: "Boid list \<Rightarrow> flt list \<Rightarrow> Boid list" where
  "run boids deltaTimes = foldl update_boids boids deltaTimes"

section \<open>The batch helper and the scheduler\<close>

datatype error = DivisionByZero | OutOfRange

text \<open>
  \<^verbatim>\<open>for (int i = start_idx; i < end_idx; i++) { auto& boid = boids[i]; ... }\<close>.
  An index outside the vector is undefined behaviour in C++; the model reports it. The
  loop counter stays below \<open>end_idx\<close>, so the increment never overflows, and the loop is
  modelled on integers. The two parameters are 32-bit \<^verbatim>\<open>int\<close>s: a call passes the values
  of two 32-bit words (\<open>update_boids_batch_call\<close> below, and \<open>start_idx_of\<close> and
  \<open>end_idx_of\<close> for the calls of the scheduler).
\<close>

function update_boids_batch :: "Boid list \<Rightarrow> int \<Rightarrow> int \<Rightarrow> flt \<Rightarrow> error + Boid list" where
  "update_boids_batch boids start_idx end_idx deltaTime =
     (if start_idx < end_idx then
        (if 0 \<le> start_idx \<and> start_idx < int (length boids) then
           update_boids_batch (boids[nat start_idx := update_boid boids (nat start_idx) deltaTime])
             (start_idx + 1) end_idx deltaTime
         else Inl OutOfRange)
      else Inr boids)"
  by pat_completeness auto
termination
  by (relation "measure (\<lambda>(boids, start_idx, end_idx, deltaTime). nat (end_idx - start_idx))") auto

declare update_boids_batch.simps [simp del]

text \<open>
  \<^verbatim>\<open>const unsigned int NUM_THREADS = std::thread::hardware_concurrency();\<close>
  The library function returns the number of hardware threads, or 0 when the value is not
  computable; its result is a parameter here.
\<close>

definition NUM_THREADS :: "32 word \<Rightarrow> 32 word" where
  "NUM_THREADS hardware_concurrency = hardware_concurrency"

text \<open>
  The index arithmetic of \<open>update_boids_parallel\<close>, for a vector of \<open>sz\<close> elements.
  \<^verbatim>\<open>int batch_size = boids.size() / NUM_THREADS\<close> divides in \<^verbatim>\<open>size_t\<close> and narrows the
  quotient to a 32-bit \<^verbatim>\<open>int\<close>; \<^verbatim>\<open>i * batch_size\<close> and \<^verbatim>\<open>(i + 1) * batch_size\<close> are
  products in \<^verbatim>\<open>unsigned int\<close>, narrowed to \<^verbatim>\<open>int\<close> as well, and so is \<^verbatim>\<open>boids.size()\<close>
  for the last batch. A narrowing keeps the low 32 bits (as GCC, Clang and MSVC do);
  \<open>sint\<close> reads them as the \<^verbatim>\<open>int\<close> that \<open>update_boids_batch\<close> receives.
\<close>

definition batch_size :: "nat \<Rightarrow> 32 word \<Rightarrow> 32 word" where
  "batch_size sz nthreads = of_nat (sz div unat nthreads)"

definition start_idx_of :: "nat \<Rightarrow> 32 word \<Rightarrow> 32 word \<Rightarrow> int" where
  "start_idx_of sz nthreads i = sint (i * batch_size sz nthreads)"

definition end_idx_of :: "nat \<Rightarrow> 32 word \<Rightarrow> 32 word \<Rightarrow> int" where
  "end_idx_of sz nthreads i =
     sint (if i = nthreads - 1 then of_nat sz else (i + 1) * batch_size sz nthreads)"

text \<open>
  The \<open>(start_idx, end_idx)\<close> pairs handed to the threads, in the order of the launch loop
  \<^verbatim>\<open>for (unsigned int i = 0; i < NUM_THREADS; i++)\<close>. With \<open>NUM_THREADS = 0\<close> the batch
  size is a division by zero.
\<close>

definition update_boids_parallel_batches :: "nat \<Rightarrow> 32 word \<Rightarrow> error + (int \<times> int) list" where
  "update_boids_parallel_batches sz nthreads =
     (if nthreads = 0 then Inl DivisionByZero
      else Inr (map (\<lambda>i. (start_idx_of sz nthreads (of_nat i), end_idx_of sz nthreads (of_nat i)))
                  [0..<unat nthreads]))"

text \<open>
  A call \<^verbatim>\<open>update_boids_batch(boids, start_idx, end_idx, deltaTime)\<close>: the two indices
  reach the function as 32-bit \<^verbatim>\<open>int\<close>s. An argument of a wider type, such as
  \<^verbatim>\<open>boids.size()\<close>, is narrowed to its low 32 bits.
\<close>

definition update_boids_batch_call ::
  "Boid list \<Rightarrow> 32 word \<Rightarrow> 32 word \<Rightarrow> flt \<Rightarrow> error + Boid list" where
  "update_boids_batch_call boids start_idx end_idx deltaTime =
     update_boids_batch boids (sint start_idx) (sint end_idx) deltaTime"

section \<open>The workers of a parallel tick\<close>

text \<open>
  \<open>update_boids_parallel\<close> starts one thread per batch, each running
  \<open>update_boids_batch\<close> on the one shared vector, and joins them all. The threads take no
  lock and the fields of a boid are plain \<^verbatim>\<open>float\<close>s, so how their reads and writes
  interleave is left to the scheduler. The model runs the workers under a schedule, a
  list of worker numbers: each entry lets that worker take its next step. A worker is the
  state of one running \<open>update_boids_batch\<close>: the loop counter \<open>i\<close>, its bound, the
  accumulators of the scan, and the place in the loop body. A step is one pass of the inner
  loop (reading one \<open>other\<close>) or one of the stages that write the boid; memory is
  sequentially consistent at this granularity. The program's races are finer than that
  (a C++ data race is undefined behaviour), so the schedules of the model are some of the
  behaviours of the program, not all of them.

  A worker whose counter has reached its bound has returned; scheduling it again does
  nothing. \<open>all_joined\<close> says that every worker has returned, which is when the joins of
  \<open>update_boids_parallel\<close> complete.
\<close>

datatype pc = Scan nat | Separation | Boundary | BiasDyn | BiasApply | SpeedCtl | Move

record worker =
  w_idx :: int
  w_end :: int
  w_pc :: pc
  w_acc :: Acc

text \<open>
  One step of a worker. The stages after the scan are those of \<open>update_boid\<close>, each
  reading and writing the boid in the shared store.
\<close>

definition worker_step :: "flt \<Rightarrow> Boid list \<Rightarrow> worker \<Rightarrow> error + (Boid list \<times> worker)" where
  "worker_step deltaTime boids w =
     (if \<not> w_idx w < w_end w then Inr (boids, w)
      else if \<not> (0 \<le> w_idx w \<and> w_idx w < int (length boids)) then Inl OutOfRange
      else
        (let i = nat (w_idx w); boid = boids ! i
         in case w_pc w of
              Scan j \<Rightarrow>
                if j < length boids then
                  Inr (boids,
                       w\<lparr>w_acc := (if j = i then w_acc w else scan_step boid (w_acc w) (boids ! j)),
                         w_pc := Scan (Suc j)\<rparr>)
                else Inr (boids[i := cohesion_alignment (w_acc w) boid], w\<lparr>w_pc := Separation\<rparr>)
            | Separation \<Rightarrow>
                Inr (boids[i := separation (w_acc w) deltaTime boid], w\<lparr>w_pc := Boundary\<rparr>)
            | Boundary \<Rightarrow> Inr (boids[i := boundary_turn boid], w\<lparr>w_pc := BiasDyn\<rparr>)
            | BiasDyn \<Rightarrow> Inr (boids[i := bias_dynamics boid], w\<lparr>w_pc := BiasApply\<rparr>)
            | BiasApply \<Rightarrow> Inr (boids[i := apply_bias boid], w\<lparr>w_pc := SpeedCtl\<rparr>)
            | SpeedCtl \<Rightarrow> Inr (boids[i := speed_control boid], w\<lparr>w_pc := Move\<rparr>)
            | Move \<Rightarrow>
                Inr (boids[i := advance_position deltaTime boid],
                     w\<lparr>w_idx := w_idx w + 1, w_pc := Scan 0, w_acc := acc0\<rparr>)))"

text \<open>The workers as the launch loop creates them, one per batch.\<close>

definition spawn :: "(int \<times> int) list \<Rightarrow> worker list" where
  "spawn batches = map (\<lambda>(s, e). \<lparr>w_idx = s, w_end = e, w_pc = Scan 0, w_acc = acc0\<rparr>) batches"

fun run_schedule :: "flt \<Rightarrow> nat list \<Rightarrow> Boid list \<times> worker list \<Rightarrow> error + (Boid list \<times> worker list)" where
  "run_schedule deltaTime [] cfg = Inr cfg"
| "run_schedule deltaTime (t # ts) (boids, ws) =
     (if t < length ws then
        (case worker_step deltaTime boids (ws ! t) of
           Inl e \<Rightarrow> Inl e
         | Inr (boids', w') \<Rightarrow> run_schedule deltaTime ts (boids', ws[t := w']))
      else run_schedule deltaTime ts (boids, ws))"

definition all_joined :: "worker list \<Rightarrow> bool" where
  "all_joined ws = list_all (\<lambda>w. \<not> w_idx w < w_end w) ws"

text \<open>
  \<open>update_boids_parallel\<close> with \<open>NUM_THREADS = nthreads\<close>, run under a schedule. The
  result is the store and the workers when the schedule is used up.
\<close>

definition update_boids_parallel ::
  "32 word \<Rightarrow> nat list \<Rightarrow> Boid list \<Rightarrow> flt \<Rightarrow> error + (Boid list \<times> worker list)" where
  "update_boids_parallel nthreads schedule boids deltaTime =
     (case update_boids_parallel_batches (length boids) nthreads of
        Inl e \<Rightarrow> Inl e
      | Inr batches \<Rightarrow> run_schedule deltaTime schedule (boids, spawn batches))"

section \<open>Binary32 numbers\<close>

text \<open>
  IEEE 754 binary32, the format of \<^verbatim>\<open>float\<close>: a value is a real number that the format
  represents, one of the two infinities, or the not-a-number value. Every operation
  computes the exact real result and rounds it to binary32 (\<open>round32\<close>), so a \<open>Val\<close>
  that an operation returns is a representable number. Each C++ operation on \<^verbatim>\<open>float\<close>s
  is one such operation: no product is fused with a sum and no intermediate result is
  kept in a wider format. A constant such as \<^verbatim>\<open>0.005f\<close> is the rounding of its decimal
  literal.

  The sign of a zero is not modelled. It shows only in a division by zero; the program
  divides by the neighbour count, which is positive there, and by
  \<open>speed = sqrt (vx*vx + vy*vy)\<close>, where the squares, their sum and its root are never the
  negative zero. So \<open>a / 0\<close> has the sign of \<open>a\<close>, and \<open>0 / 0\<close> is not a number.
\<close>

datatype f32 = Val real | PInf | NInf | QNaN

text \<open>Rounding to the nearest integer, a tie to the even one.\<close>

definition round_even :: "real \<Rightarrow> int" where
  "round_even t =
     (let f = \<lfloor>t\<rfloor>
      in if t - of_int f < 1 / 2 then f
         else if 1 / 2 < t - of_int f then f + 1
         else if even f then f else f + 1)"

text \<open>
  Around \<open>r\<close> the representable numbers are the multiples of \<open>2 ^ ulp_exp r\<close>: 24
  significant bits for a normal number, the fixed spacing \<open>2 ^ -149\<close> below \<open>2 ^ -126\<close>.
\<close>

definition ulp_exp :: "real \<Rightarrow> int" where
  "ulp_exp r = max (- 149) (\<lfloor>log 2 \<bar>r\<bar>\<rfloor> - 23)"

text \<open>
  Round to nearest, ties to even. The largest finite number is \<open>2 ^ 128 - 2 ^ 104\<close>; a
  result that rounds to \<open>2 ^ 128\<close> or beyond, with the exponent unbounded, is an infinity.
\<close>

definition round32 :: "real \<Rightarrow> f32" where
  "round32 r =
     (if r = 0 then Val 0
      else
        (let q = 2 powi ulp_exp r;
             v = of_int (round_even (r / q)) * q
         in if 2 ^ 128 \<le> v then PInf else if v \<le> - (2 ^ 128) then NInf else Val v))"

text \<open>The operations. The cases with an infinity or a zero divisor are those of IEEE 754.\<close>

fun neg32 :: "f32 \<Rightarrow> f32" where
  "neg32 (Val a) = Val (- a)"
| "neg32 PInf = NInf"
| "neg32 NInf = PInf"
| "neg32 QNaN = QNaN"

fun add32 :: "f32 \<Rightarrow> f32 \<Rightarrow> f32" where
  "add32 (Val a) (Val b) = round32 (a + b)"
| "add32 QNaN _ = QNaN"
| "add32 _ QNaN = QNaN"
| "add32 PInf NInf = QNaN"
| "add32 NInf PInf = QNaN"
| "add32 PInf _ = PInf"
| "add32 _ PInf = PInf"
| "add32 NInf _ = NInf"
| "add32 _ NInf = NInf"

definition sub32 :: "f32 \<Rightarrow> f32 \<Rightarrow> f32" where
  "sub32 a b = add32 a (neg32 b)"

fun mul32 :: "f32 \<Rightarrow> f32 \<Rightarrow> f32" where
  "mul32 (Val a) (Val b) = round32 (a * b)"
| "mul32 QNaN _ = QNaN"
| "mul32 _ QNaN = QNaN"
| "mul32 PInf (Val b) = (if b = 0 then QNaN else if 0 < b then PInf else NInf)"
| "mul32 NInf (Val b) = (if b = 0 then QNaN else if 0 < b then NInf else PInf)"
| "mul32 (Val a) PInf = (if a = 0 then QNaN else if 0 < a then PInf else NInf)"
| "mul32 (Val a) NInf = (if a = 0 then QNaN else if 0 < a then NInf else PInf)"
| "mul32 PInf PInf = PInf"
| "mul32 NInf NInf = PInf"
| "mul32 PInf NInf = NInf"
| "mul32 NInf PInf = NInf"

fun div32 :: "f32 \<Rightarrow> f32 \<Rightarrow> f32" where
  "div32 (Val a) (Val b) =
     (if b = 0 then (if a = 0 then QNaN else if 0 < a then PInf else NInf)
      else round32 (a / b))"
| "div32 QNaN _ = QNaN"
| "div32 _ QNaN = QNaN"
| "div32 (Val a) PInf = Val 0"
| "div32 (Val a) NInf = Val 0"
| "div32 PInf (Val b) = (if 0 \<le> b then PInf else NInf)"
| "div32 NInf (Val b) = (if 0 \<le> b then NInf else PInf)"
| "div32 _ _ = QNaN"

text \<open>\<open>a < b\<close> and \<open>a \<le> b\<close>; every ordered comparison with \<open>QNaN\<close> is false.\<close>

fun less32 :: "f32 \<Rightarrow> f32 \<Rightarrow> bool" where
  "less32 (Val a) (Val b) = (a < b)"
| "less32 QNaN _ = False"
| "less32 _ QNaN = False"
| "less32 PInf _ = False"
| "less32 _ NInf = False"
| "less32 _ _ = True"

fun le32 :: "f32 \<Rightarrow> f32 \<Rightarrow> bool" where
  "le32 (Val a) (Val b) = (a \<le> b)"
| "le32 QNaN _ = False"
| "le32 _ QNaN = False"
| "le32 NInf _ = True"
| "le32 _ PInf = True"
| "le32 _ _ = False"

text \<open>\<^verbatim>\<open>std::abs\<close> and \<^verbatim>\<open>std::sqrt\<close> on \<^verbatim>\<open>float\<close>.\<close>

fun abs32 :: "f32 \<Rightarrow> f32" where
  "abs32 (Val a) = Val \<bar>a\<bar>"
| "abs32 PInf = PInf"
| "abs32 NInf = PInf"
| "abs32 QNaN = QNaN"

fun sqrt32 :: "f32 \<Rightarrow> f32" where
  "sqrt32 (Val a) = (if a < 0 then QNaN else round32 (sqrt a))"
| "sqrt32 PInf = PInf"
| "sqrt32 NInf = QNaN"
| "sqrt32 QNaN = QNaN"

text \<open>
  \<^verbatim>\<open>std::min(a, b)\<close> is \<^verbatim>\<open>(b < a) ? b : a\<close> and \<^verbatim>\<open>std::max(a, b)\<close> is
  \<^verbatim>\<open>(a < b) ? b : a\<close>.
\<close>

definition std_min32 :: "f32 \<Rightarrow> f32 \<Rightarrow> f32" where
  "std_min32 a b = (if less32 b a then b else a)"

definition std_max32 :: "f32 \<Rightarrow> f32 \<Rightarrow> f32" where
  "std_max32 a b = (if less32 a b then b else a)"

text \<open>\<^verbatim>\<open>std::fmin\<close> and \<^verbatim>\<open>std::fmax\<close> return the other argument when one is not a number.\<close>

fun fmin32 :: "f32 \<Rightarrow> f32 \<Rightarrow> f32" where
  "fmin32 QNaN b = b"
| "fmin32 a QNaN = a"
| "fmin32 a b = (if less32 b a then b else a)"

fun fmax32 :: "f32 \<Rightarrow> f32 \<Rightarrow> f32" where
  "fmax32 QNaN b = b"
| "fmax32 a QNaN = a"
| "fmax32 a b = (if less32 a b then b else a)"

text \<open>\<^verbatim>\<open>float clamp(float value, float min, float max)\<close>\<close>

definition clamp32 :: "f32 \<Rightarrow> f32 \<Rightarrow> f32 \<Rightarrow> f32" where
  "clamp32 val lo hi = fmax32 lo (fmin32 val hi)"

text \<open>The conversion of an \<^verbatim>\<open>int\<close> to \<^verbatim>\<open>float\<close>, in \<^verbatim>\<open>xpos_avg / neighboring_boids\<close>.\<close>

definition of_int32 :: "int \<Rightarrow> f32" where
  "of_int32 n = round32 (of_int n)"

text \<open>A value that is a number, neither an infinity nor \<open>QNaN\<close>.\<close>

fun finite32 :: "f32 \<Rightarrow> bool" where
  "finite32 (Val a) = True"
| "finite32 _ = False"

section \<open>The program on binary32 numbers\<close>

text \<open>
  The same program text, with every operation on \<^verbatim>\<open>float\<close> rounded. The definitions are
  those of the first embedding, operation for operation; their names end in \<open>32\<close>.
\<close>

subsection \<open>Constants\<close>

text \<open>
  \<^verbatim>\<open>WIDTH\<close>, \<^verbatim>\<open>HEIGHT\<close>, \<^verbatim>\<open>VISUAL_RANGE\<close> and \<^verbatim>\<open>PROTECTED_RANGE\<close> are \<^verbatim>\<open>int\<close> literals,
  converted where they meet a \<^verbatim>\<open>float\<close>; they and the squares \<open>20 * 20\<close> and \<open>75 * 75\<close>
  are representable, so the conversion changes nothing. The other constants carry the
  suffix \<^verbatim>\<open>f\<close>.
\<close>

definition WIDTH32 :: f32 where "WIDTH32 = Val 800"
definition HEIGHT32 :: f32 where "HEIGHT32 = Val 600"
definition VISUAL_RANGE32 :: f32 where "VISUAL_RANGE32 = Val 75"
definition PROTECTED_RANGE32 :: f32 where "PROTECTED_RANGE32 = Val 20"
definition CENTERING_FACTOR32 :: f32 where "CENTERING_FACTOR32 = round32 (5 / 1000)"
definition AVOID_FACTOR32 :: f32 where "AVOID_FACTOR32 = round32 (5 / 100)"
definition MATCHING_FACTOR32 :: f32 where "MATCHING_FACTOR32 = round32 (5 / 100)"
definition TURN_FACTOR32 :: f32 where "TURN_FACTOR32 = Val 1"
definition MIN_SPEED32 :: f32 where "MIN_SPEED32 = Val 10"
definition MAX_SPEED32 :: f32 where "MAX_SPEED32 = Val 40"
definition MAX_BIAS32 :: f32 where "MAX_BIAS32 = Val (25 / 100)"
definition BIAS_INCREMENT32 :: f32 where "BIAS_INCREMENT32 = round32 (5 / 1000)"

subsection \<open>The agent store\<close>

record Boid32 =
  x32 :: f32
  y32 :: f32
  vx32 :: f32
  vy32 :: f32
  biasval32 :: f32
  scout_group32 :: int

subsection \<open>The neighbour scan\<close>

record Acc32 =
  xpos_avg32 :: f32
  ypos_avg32 :: f32
  xvel_avg32 :: f32
  yvel_avg32 :: f32
  neighboring_boids32 :: int
  close_dx32 :: f32
  close_dy32 :: f32

definition acc0_32 :: Acc32 where
  "acc0_32 = \<lparr>xpos_avg32 = Val 0, ypos_avg32 = Val 0, xvel_avg32 = Val 0, yvel_avg32 = Val 0,
           neighboring_boids32 = 0, close_dx32 = Val 0, close_dy32 = Val 0\<rparr>"

definition scan_step32 :: "Boid32 \<Rightarrow> Acc32 \<Rightarrow> Boid32 \<Rightarrow> Acc32" where
  "scan_step32 boid acc other =
     (let dx = sub32 (x32 boid) (x32 other);
          dy = sub32 (y32 boid) (y32 other)
      in if less32 (abs32 dx) VISUAL_RANGE32 \<and> less32 (abs32 dy) VISUAL_RANGE32 then
           (let dist_squared = add32 (mul32 dx dx) (mul32 dy dy)
            in if less32 dist_squared (mul32 PROTECTED_RANGE32 PROTECTED_RANGE32) then
                 acc\<lparr>close_dx32 := add32 (close_dx32 acc) dx,
                     close_dy32 := add32 (close_dy32 acc) dy\<rparr>
               else if less32 dist_squared (mul32 VISUAL_RANGE32 VISUAL_RANGE32) then
                 acc\<lparr>xpos_avg32 := add32 (xpos_avg32 acc) (x32 other),
                     ypos_avg32 := add32 (ypos_avg32 acc) (y32 other),
                     xvel_avg32 := add32 (xvel_avg32 acc) (vx32 other),
                     yvel_avg32 := add32 (yvel_avg32 acc) (vy32 other),
                     neighboring_boids32 := neighboring_boids32 acc + 1\<rparr>
               else acc)
         else acc)"

definition scan32 :: "Boid32 list \<Rightarrow> nat \<Rightarrow> Acc32" where
  "scan32 boids i =
     foldl (\<lambda>acc j. if j = i then acc else scan_step32 (boids ! i) acc (boids ! j))
       acc0_32 [0..<length boids]"

subsection \<open>The velocity update of one boid\<close>

definition cohesion_alignment32 :: "Acc32 \<Rightarrow> Boid32 \<Rightarrow> Boid32" where
  "cohesion_alignment32 acc boid =
     (if neighboring_boids32 acc > 0 then
        (let n = of_int32 (neighboring_boids32 acc);
             xpos = div32 (xpos_avg32 acc) n;
             ypos = div32 (ypos_avg32 acc) n;
             xvel = div32 (xvel_avg32 acc) n;
             yvel = div32 (yvel_avg32 acc) n
         in boid\<lparr>vx32 := add32 (vx32 boid)
                       (add32 (mul32 (sub32 xpos (x32 boid)) CENTERING_FACTOR32)
                             (mul32 (sub32 xvel (vx32 boid)) MATCHING_FACTOR32)),
                 vy32 := add32 (vy32 boid)
                       (add32 (mul32 (sub32 ypos (y32 boid)) CENTERING_FACTOR32)
                             (mul32 (sub32 yvel (vy32 boid)) MATCHING_FACTOR32))\<rparr>)
      else boid)"

definition separation32 :: "Acc32 \<Rightarrow> f32 \<Rightarrow> Boid32 \<Rightarrow> Boid32" where
  "separation32 acc deltaTime boid =
     boid\<lparr>vx32 := add32 (vx32 boid) (mul32 (mul32 (close_dx32 acc) AVOID_FACTOR32) deltaTime),
          vy32 := add32 (vy32 boid) (mul32 (mul32 (close_dy32 acc) AVOID_FACTOR32) deltaTime)\<rparr>"

definition boundary_turn32 :: "Boid32 \<Rightarrow> Boid32" where
  "boundary_turn32 boid =
     (let b1 = (if less32 (x32 boid) (Val 0) then boid\<lparr>vx32 := add32 (vx32 boid) TURN_FACTOR32\<rparr> else boid);
          b2 = (if less32 WIDTH32 (x32 b1) then b1\<lparr>vx32 := sub32 (vx32 b1) TURN_FACTOR32\<rparr> else b1);
          b3 = (if less32 (y32 b2) (Val 0) then b2\<lparr>vy32 := add32 (vy32 b2) TURN_FACTOR32\<rparr> else b2)
      in if less32 HEIGHT32 (y32 b3) then b3\<lparr>vy32 := sub32 (vy32 b3) TURN_FACTOR32\<rparr> else b3)"

definition bias_dynamics32 :: "Boid32 \<Rightarrow> Boid32" where
  "bias_dynamics32 boid =
     (if scout_group32 boid = 1 then
        (if less32 (Val 0) (vx32 boid)
         then boid\<lparr>biasval32 := std_min32 MAX_BIAS32 (add32 (biasval32 boid) BIAS_INCREMENT32)\<rparr>
         else boid\<lparr>biasval32 := std_max32 BIAS_INCREMENT32 (sub32 (biasval32 boid) BIAS_INCREMENT32)\<rparr>)
      else if scout_group32 boid = 2 then
        (if less32 (vx32 boid) (Val 0)
         then boid\<lparr>biasval32 := std_min32 MAX_BIAS32 (add32 (biasval32 boid) BIAS_INCREMENT32)\<rparr>
         else boid\<lparr>biasval32 := std_max32 BIAS_INCREMENT32 (sub32 (biasval32 boid) BIAS_INCREMENT32)\<rparr>)
      else boid)"

definition apply_bias32 :: "Boid32 \<Rightarrow> Boid32" where
  "apply_bias32 boid =
     (if scout_group32 boid = 1 then
        boid\<lparr>vx32 := add32 (mul32 (sub32 (Val 1) (biasval32 boid)) (vx32 boid)) (biasval32 boid)\<rparr>
      else if scout_group32 boid = 2 then
        boid\<lparr>vx32 := sub32 (mul32 (sub32 (Val 1) (biasval32 boid)) (vx32 boid)) (biasval32 boid)\<rparr>
      else boid)"

definition speed_of32 :: "Boid32 \<Rightarrow> f32" where
  "speed_of32 boid = sqrt32 (add32 (mul32 (vx32 boid) (vx32 boid)) (mul32 (vy32 boid) (vy32 boid)))"

definition speed_control32 :: "Boid32 \<Rightarrow> Boid32" where
  "speed_control32 boid =
     (let speed = speed_of32 boid
      in if less32 speed MIN_SPEED32 \<or> less32 MAX_SPEED32 speed then
           (let b1 = boid\<lparr>vx32 := mul32 (div32 (vx32 boid) speed) (clamp32 speed MIN_SPEED32 MAX_SPEED32)\<rparr>
            in b1\<lparr>vy32 := mul32 (div32 (vy32 b1) speed) (clamp32 speed MIN_SPEED32 MAX_SPEED32)\<rparr>)
         else boid)"

definition advance_position32 :: "f32 \<Rightarrow> Boid32 \<Rightarrow> Boid32" where
  "advance_position32 deltaTime boid =
     boid\<lparr>x32 := add32 (x32 boid) (mul32 (vx32 boid) deltaTime),
          y32 := add32 (y32 boid) (mul32 (vy32 boid) deltaTime)\<rparr>"

definition pre_bias32 :: "Boid32 list \<Rightarrow> nat \<Rightarrow> f32 \<Rightarrow> Boid32" where
  "pre_bias32 boids i deltaTime =
     (let acc = scan32 boids i
      in boundary_turn32 (separation32 acc deltaTime (cohesion_alignment32 acc (boids ! i))))"

definition pre_clamp32 :: "Boid32 list \<Rightarrow> nat \<Rightarrow> f32 \<Rightarrow> Boid32" where
  "pre_clamp32 boids i deltaTime = apply_bias32 (bias_dynamics32 (pre_bias32 boids i deltaTime))"

definition update_boid32 :: "Boid32 list \<Rightarrow> nat \<Rightarrow> f32 \<Rightarrow> Boid32" where
  "update_boid32 boids i deltaTime =
     advance_position32 deltaTime (speed_control32 (pre_clamp32 boids i deltaTime))"

subsection \<open>The sequential tick\<close>

definition update_prefix32 :: "Boid32 list \<Rightarrow> f32 \<Rightarrow> nat \<Rightarrow> Boid32 list" where
  "update_prefix32 boids deltaTime k =
     foldl (\<lambda>bs i. bs[i := update_boid32 bs i deltaTime]) boids [0..<k]"

definition update_boids32 :: "Boid32 list \<Rightarrow> f32 \<Rightarrow> Boid32 list" where
  "update_boids32 boids deltaTime = update_prefix32 boids deltaTime (length boids)"

definition run32 :: "Boid32 list \<Rightarrow> f32 list \<Rightarrow> Boid32 list" where
  "run32 boids deltaTimes = foldl update_boids32 boids deltaTimes"

section \<open>The neighbour scan, as the specification words it\<close>








section \<open>Example stores\<close>


text \<open>One boid without a group.\<close>

definition store0 :: "Boid list" where
  "store0 = [\<lparr>x = Num 100, y = Num 100, vx = Num 5, vy = Num 0, biasval = Num 0, scout_group = 0\<rparr>]"

text \<open>Two boids at rest, 10 apart.\<close>

definition store_pair :: "Boid list" where
  "store_pair =
     [\<lparr>x = Num 100, y = Num 100, vx = Num 0, vy = Num 0, biasval = Num 0, scout_group = 0\<rparr>,
      \<lparr>x = Num 110, y = Num 100, vx = Num 0, vy = Num 0, biasval = Num 0, scout_group = 0\<rparr>]"

text \<open>\<open>2^31\<close> BiasRight boids, all at one place and moving right.\<close>

definition store_big :: "Boid list" where
  "store_big = replicate 2147483648
     \<lparr>x = Num 100, y = Num 100, vx = Num 5, vy = Num 0, biasval = Num 0, scout_group = 1\<rparr>"

text \<open>
  Two boids without a group, 30 apart on a horizontal line and moving right at speed 20:
  each is in the other's visual range, and after one step of the left one they are less
  than \<open>PROTECTED_RANGE\<close> apart.
\<close>

definition store_line :: "Boid list" where
  "store_line =
     [\<lparr>x = Num 100, y = Num 100, vx = Num 20, vy = Num 0, biasval = Num 0, scout_group = 0\<rparr>,
      \<lparr>x = Num 130, y = Num 100, vx = Num 20, vy = Num 0, biasval = Num 0, scout_group = 0\<rparr>]"


text \<open>One boid without a group, at rest inside the window.\<close>

definition store_rest32 :: "Boid32 list" where
  "store_rest32 = [\<lparr>x32 = Val 100, y32 = Val 100, vx32 = Val 0, vy32 = Val 0,
                    biasval32 = Val 0, scout_group32 = 0\<rparr>]"

text \<open>
  One boid without a group inside the window, moving right at the speed \<open>2^-100\<close>, whose
  square is below the smallest positive binary32 number.
\<close>

definition store_tiny :: "Boid32 list" where
  "store_tiny = [\<lparr>x32 = Val 100, y32 = Val 100, vx32 = Val (1 / 2 ^ 100), vy32 = Val 0,
                  biasval32 = Val 0, scout_group32 = 0\<rparr>]"

text \<open>That boid after one tick.\<close>

definition boid_tiny_after :: Boid32 where
  "boid_tiny_after = \<lparr>x32 = PInf, y32 = QNaN, vx32 = PInf, vy32 = QNaN,
                       biasval32 = Val 0, scout_group32 = 0\<rparr>"

section \<open>The structure of a tick\<close>

subsection \<open>The prefix of a tick\<close>

lemma length_update_prefix [simp]: "length (update_prefix boids deltaTime k) = length boids"
  by (induction k) (simp_all add: update_prefix_def)

lemma length_update_boids [simp]: "length (update_boids boids deltaTime) = length boids"
  by (simp add: update_boids_def)

lemma update_prefix_Suc:
  "update_prefix boids deltaTime (Suc k) =
     (update_prefix boids deltaTime k)[k := update_boid (update_prefix boids deltaTime k) k deltaTime]"
  by (simp add: update_prefix_def)

lemma update_prefix_0 [simp]: "update_prefix boids deltaTime 0 = boids"
  by (simp add: update_prefix_def)

subsection \<open>Fields each stage leaves alone\<close>

lemma cohesion_alignment_frame [simp]:
  "x (cohesion_alignment acc b) = x b" "y (cohesion_alignment acc b) = y b"
  "biasval (cohesion_alignment acc b) = biasval b"
  "scout_group (cohesion_alignment acc b) = scout_group b"
  by (simp_all add: cohesion_alignment_def Let_def)

lemma separation_frame [simp]:
  "x (separation acc dt b) = x b" "y (separation acc dt b) = y b"
  "biasval (separation acc dt b) = biasval b"
  "scout_group (separation acc dt b) = scout_group b"
  by (simp_all add: separation_def)

lemma boundary_turn_frame [simp]:
  "x (boundary_turn b) = x b" "y (boundary_turn b) = y b"
  "biasval (boundary_turn b) = biasval b"
  "scout_group (boundary_turn b) = scout_group b"
  by (simp_all add: boundary_turn_def Let_def)

lemma bias_dynamics_frame [simp]:
  "x (bias_dynamics b) = x b" "y (bias_dynamics b) = y b"
  "vx (bias_dynamics b) = vx b" "vy (bias_dynamics b) = vy b"
  "scout_group (bias_dynamics b) = scout_group b"
  by (simp_all add: bias_dynamics_def)

lemma apply_bias_frame [simp]:
  "x (apply_bias b) = x b" "y (apply_bias b) = y b"
  "vy (apply_bias b) = vy b" "biasval (apply_bias b) = biasval b"
  "scout_group (apply_bias b) = scout_group b"
  by (simp_all add: apply_bias_def)

lemma speed_control_frame [simp]:
  "x (speed_control b) = x b" "y (speed_control b) = y b"
  "biasval (speed_control b) = biasval b"
  "scout_group (speed_control b) = scout_group b"
  by (simp_all add: speed_control_def Let_def)

lemma advance_position_frame [simp]:
  "vx (advance_position dt b) = vx b" "vy (advance_position dt b) = vy b"
  "biasval (advance_position dt b) = biasval b"
  "scout_group (advance_position dt b) = scout_group b"
  by (simp_all add: advance_position_def)

lemma update_boid_scout_group [simp]:
  "scout_group (update_boid st i dt) = scout_group (st ! i)"
  by (simp add: update_boid_def pre_clamp_def pre_bias_def Let_def)

lemma pre_bias_frame [simp]:
  "x (pre_bias st i dt) = x (st ! i)" "y (pre_bias st i dt) = y (st ! i)"
  "biasval (pre_bias st i dt) = biasval (st ! i)"
  "scout_group (pre_bias st i dt) = scout_group (st ! i)"
  by (simp_all add: pre_bias_def Let_def)

lemma update_boid_biasval:
  "biasval (update_boid st i dt) = biasval (bias_dynamics (pre_bias st i dt))"
  by (simp add: update_boid_def pre_clamp_def)

subsection \<open>The boid at index i during a tick\<close>

lemma update_prefix_nth_later:
  "k \<le> i \<Longrightarrow> update_prefix bs dt k ! i = bs ! i"
  by (induction k) (simp_all add: update_prefix_Suc)

lemma update_prefix_nth_done:
  "i < k \<Longrightarrow> i < length bs \<Longrightarrow>
   update_prefix bs dt k ! i = update_boid (update_prefix bs dt i) i dt"
proof (induction k)
  case 0
  then show ?case by simp
next
  case (Suc k)
  show ?case
  proof (cases "i = k")
    case True
    then show ?thesis using Suc.prems by (simp add: update_prefix_Suc)
  next
    case False
    then have "i < k" using Suc.prems by simp
    then show ?thesis using Suc False by (simp add: update_prefix_Suc)
  qed
qed

lemma update_boids_nth:
  "i < length bs \<Longrightarrow>
   update_boids bs dt ! i = update_boid (update_prefix bs dt i) i dt"
  by (simp add: update_boids_def update_prefix_nth_done)

lemma run_Nil [simp]: "run bs [] = bs"
  by (simp add: run_def)

lemma run_Cons [simp]: "run bs (dt # dts) = run (update_boids bs dt) dts"
  by (simp add: run_def)

lemma length_run [simp]: "length (run bs dts) = length bs"
  by (induction dts arbitrary: bs) simp_all

lemma scan_single: "scan [b] 0 = acc0"
  by (simp add: scan_def)

section \<open>The bias steps\<close>

text \<open>
  C9. A BiasRight boid (\<open>scout_group = 1\<close>) that reaches the bias steps with
  \<open>biasval = 0\<close> and \<open>vx = 5\<close> first has \<open>biasval\<close> ramped to
  \<open>BIAS_INCREMENT = 0.005\<close>, and the bias is applied with the new value: \<open>vx\<close> becomes
  \<open>(1 - 0.005) * 5 + 0.005 = 4.98\<close> before the speed control (also end to end, for a lone
  boid inside the window). In general BiasRight applies
  \<open>vx = (1 - biasval) * vx + biasval\<close>, BiasLeft applies
  \<open>vx = (1 - biasval) * vx - biasval\<close>, and a boid of no group keeps its \<open>vx\<close>.
\<close>

theorem bias_right_scenario:
  "biasval (bias_dynamics (b\<lparr>vx := Num 5, biasval := Num 0, scout_group := 1\<rparr>)) = BIAS_INCREMENT
   \<and> BIAS_INCREMENT = Num (5 / 1000)
   \<and> vx (apply_bias (bias_dynamics (b\<lparr>vx := Num 5, biasval := Num 0, scout_group := 1\<rparr>)))
       = Num (498 / 100)
   \<and> pre_clamp [\<lparr>x = Num 100, y = Num 100, vx = Num 5, vy = Num 0, biasval = Num 0,
                  scout_group = 1\<rparr>] 0 (Num t)
       = \<lparr>x = Num 100, y = Num 100, vx = Num (498 / 100), vy = Num 0,
          biasval = Num (5 / 1000), scout_group = 1\<rparr>
   \<and> vx (apply_bias (c\<lparr>scout_group := 1\<rparr>))
       = fadd (fmul (fsub (Num 1) (biasval c)) (vx c)) (biasval c)
   \<and> vx (apply_bias (c\<lparr>scout_group := 2\<rparr>))
       = fsub (fmul (fsub (Num 1) (biasval c)) (vx c)) (biasval c)
   \<and> vx (apply_bias (c\<lparr>scout_group := 0\<rparr>)) = vx c"
  by (simp add: pre_clamp_def pre_bias_def scan_single acc0_def cohesion_alignment_def separation_def
      boundary_turn_def bias_dynamics_def apply_bias_def std_min_def consts_defs)

section \<open>The bias value stays between its floor and its ceiling\<close>

lemma update_boids_scout_group:
  "i < length bs \<Longrightarrow> scout_group (update_boids bs dt ! i) = scout_group (bs ! i)"
  by (simp add: update_boids_nth update_prefix_nth_later)


lemma run_scout_group:
  "i < length bs \<Longrightarrow> scout_group (run bs dts ! i) = scout_group (bs ! i)"
  by (induction dts arbitrary: bs) (simp_all add: update_boids_scout_group)








section \<open>The batch helper over an index range\<close>

lemma batch_is_fold:
  "k \<le> length boids \<Longrightarrow>
   update_boids_batch boids (int k) (int (length boids)) deltaTime =
     Inr (foldl (\<lambda>bs i. bs[i := update_boid bs i deltaTime]) boids [k..<length boids])"
proof (induction "length boids - k" arbitrary: boids k)
  case 0
  then have "k = length boids" by simp
  then show ?case by (simp add: update_boids_batch.simps)
next
  case (Suc d)
  then have lt: "k < length boids" by simp
  let ?bs = "boids[k := update_boid boids k deltaTime]"
  have len: "length ?bs = length boids" by simp
  have "d = length ?bs - Suc k" using Suc.hyps(2) by simp
  moreover have "Suc k \<le> length ?bs" using lt by simp
  ultimately have ih:
    "update_boids_batch ?bs (int (Suc k)) (int (length ?bs)) deltaTime =
       Inr (foldl (\<lambda>bs i. bs[i := update_boid bs i deltaTime]) ?bs [Suc k..<length ?bs])"
    by (rule Suc.hyps(1))
  have "update_boids_batch boids (int k) (int (length boids)) deltaTime =
          update_boids_batch ?bs (int k + 1) (int (length boids)) deltaTime"
    using lt by (subst update_boids_batch.simps) simp
  also have "int k + 1 = int (Suc k)" by simp
  finally show ?case
    using ih lt by (simp add: upt_conv_Cons)
qed

lemma update_boids_batch_full:
  "update_boids_batch boids 0 (int (length boids)) deltaTime = Inr (update_boids boids deltaTime)"
  using batch_is_fold [of 0 boids deltaTime]
  by (simp add: update_boids_def update_prefix_def)

section \<open>The group is never written; without a group, the bias value is neither read nor written\<close>

lemma bias_steps_no_group:
  "scout_group b \<noteq> 1 \<Longrightarrow> scout_group b \<noteq> 2 \<Longrightarrow> bias_dynamics b = b \<and> apply_bias b = b"
  by (simp add: bias_dynamics_def apply_bias_def)

lemma update_boid_biasval_no_group:
  "scout_group (st ! i) \<noteq> 1 \<Longrightarrow> scout_group (st ! i) \<noteq> 2 \<Longrightarrow>
   biasval (update_boid st i dt) = biasval (st ! i)"
  by (simp add: update_boid_biasval bias_steps_no_group)

lemma update_boids_biasval_no_group:
  assumes "i < length bs" and "scout_group (bs ! i) \<noteq> 1" and "scout_group (bs ! i) \<noteq> 2"
  shows "biasval (update_boids bs dt ! i) = biasval (bs ! i)"
proof -
  have "update_prefix bs dt i ! i = bs ! i" by (simp add: update_prefix_nth_later)
  then show ?thesis using assms by (simp add: update_boids_nth update_boid_biasval_no_group)
qed

lemma run_biasval_no_group:
  "i < length bs \<Longrightarrow> scout_group (bs ! i) \<noteq> 1 \<Longrightarrow> scout_group (bs ! i) \<noteq> 2 \<Longrightarrow>
   biasval (run bs dts ! i) = biasval (bs ! i)"
  by (induction dts arbitrary: bs)
     (simp_all add: update_boids_biasval_no_group update_boids_scout_group)

lemma run_map_scout_group: "map scout_group (run bs dts) = map scout_group bs"
  by (rule nth_equalityI) (simp_all add: run_scout_group)

subsection \<open>Nothing depends on the bias value of a boid without a group\<close>

lemma scan_step_biasval [simp]:
  "scan_step (b\<lparr>biasval := v\<rparr>) acc other = scan_step b acc other"
  "scan_step b acc (other\<lparr>biasval := v\<rparr>) = scan_step b acc other"
  by (simp_all add: scan_step_def Let_def)

lemma nth_biasval_update:
  "i < length st \<Longrightarrow>
   st[i := (st ! i)\<lparr>biasval := v\<rparr>] ! k = (if k = i then (st ! i)\<lparr>biasval := v\<rparr> else st ! k)"
  by simp

lemma scan_biasval:
  assumes "i < length st"
  shows "scan (st[i := (st ! i)\<lparr>biasval := v\<rparr>]) k = scan st k"
proof -
  let ?st = "st[i := (st ! i)\<lparr>biasval := v\<rparr>]"
  have "(if j = k then acc else scan_step (?st ! k) acc (?st ! j)) =
        (if j = k then acc else scan_step (st ! k) acc (st ! j))" for acc j
    by (simp add: nth_biasval_update [OF assms])
  then show ?thesis by (simp add: scan_def)
qed

lemma speed_of_biasval [simp]: "speed_of (b\<lparr>biasval := v\<rparr>) = speed_of b"
  by (simp add: speed_of_def)

lemma stages_biasval:
  "cohesion_alignment acc (b\<lparr>biasval := v\<rparr>) = (cohesion_alignment acc b)\<lparr>biasval := v\<rparr>"
  "separation acc dt (b\<lparr>biasval := v\<rparr>) = (separation acc dt b)\<lparr>biasval := v\<rparr>"
  "boundary_turn (b\<lparr>biasval := v\<rparr>) = (boundary_turn b)\<lparr>biasval := v\<rparr>"
  "speed_control (b\<lparr>biasval := v\<rparr>) = (speed_control b)\<lparr>biasval := v\<rparr>"
  "advance_position dt (b\<lparr>biasval := v\<rparr>) = (advance_position dt b)\<lparr>biasval := v\<rparr>"
  by (simp_all add: cohesion_alignment_def separation_def boundary_turn_def speed_control_def
      advance_position_def Let_def)

lemma update_boid_biasval_other:
  assumes "i < length st" and "k \<noteq> i"
  shows "update_boid (st[i := (st ! i)\<lparr>biasval := v\<rparr>]) k dt = update_boid st k dt"
  using assms by (simp add: update_boid_def pre_clamp_def pre_bias_def scan_biasval)

lemma update_boid_biasval_self:
  assumes "i < length st" and "scout_group (st ! i) \<noteq> 1" and "scout_group (st ! i) \<noteq> 2"
  shows "update_boid (st[i := (st ! i)\<lparr>biasval := v\<rparr>]) i dt = (update_boid st i dt)\<lparr>biasval := v\<rparr>"
proof -
  let ?q = "boundary_turn (separation (scan st i) dt (cohesion_alignment (scan st i) (st ! i)))"
  have g: "scout_group ?q \<noteq> 1" "scout_group ?q \<noteq> 2" using assms by simp_all
  have "bias_dynamics (?q\<lparr>biasval := v\<rparr>) = ?q\<lparr>biasval := v\<rparr>"
       "apply_bias (?q\<lparr>biasval := v\<rparr>) = ?q\<lparr>biasval := v\<rparr>"
       "bias_dynamics ?q = ?q" "apply_bias ?q = ?q"
    using g by (simp_all add: bias_dynamics_def apply_bias_def)
  then show ?thesis using assms(1)
    by (simp add: update_boid_def pre_clamp_def pre_bias_def scan_biasval stages_biasval Let_def)
qed

lemma update_prefix_biasval:
  assumes "i < length st" and "scout_group (st ! i) \<noteq> 1" and "scout_group (st ! i) \<noteq> 2"
  shows "k \<le> length st \<Longrightarrow>
         update_prefix (st[i := (st ! i)\<lparr>biasval := v\<rparr>]) dt k =
           (update_prefix st dt k)[i := (update_prefix st dt k ! i)\<lparr>biasval := v\<rparr>]"
proof (induction k)
  case 0
  then show ?case by simp
next
  case (Suc k)
  let ?S = "update_prefix st dt k"
  let ?S' = "?S[i := (?S ! i)\<lparr>biasval := v\<rparr>]"
  have ih: "update_prefix (st[i := (st ! i)\<lparr>biasval := v\<rparr>]) dt k = ?S'"
    using Suc by simp
  have len: "i < length ?S" using assms(1) by simp
  have unf: "update_prefix (st[i := (st ! i)\<lparr>biasval := v\<rparr>]) dt (Suc k) =
               ?S'[k := update_boid ?S' k dt]"
    by (simp add: update_prefix_Suc ih)
  have goal: "(update_prefix st dt (Suc k))[i := (update_prefix st dt (Suc k) ! i)\<lparr>biasval := v\<rparr>] =
               (?S[k := update_boid ?S k dt])[i := (?S[k := update_boid ?S k dt] ! i)\<lparr>biasval := v\<rparr>]"
    by (simp add: update_prefix_Suc)
  show ?case
  proof (cases "k = i")
    case True
    have "?S ! i = st ! i" using True by (simp add: update_prefix_nth_later)
    then have g: "scout_group (?S ! i) \<noteq> 1" "scout_group (?S ! i) \<noteq> 2" using assms by simp_all
    have "?S'[k := update_boid ?S' k dt] = ?S[i := (update_boid ?S i dt)\<lparr>biasval := v\<rparr>]"
      using True update_boid_biasval_self [OF len g, of v dt] by simp
    also have "\<dots> = (?S[k := update_boid ?S k dt])[i := (?S[k := update_boid ?S k dt] ! i)\<lparr>biasval := v\<rparr>]"
      using True len by simp
    finally show ?thesis unfolding unf goal .
  next
    case False
    have "?S'[k := update_boid ?S' k dt] = ?S'[k := update_boid ?S k dt]"
      using update_boid_biasval_other [OF len False, of v dt] by simp
    also have "\<dots> = (?S[k := update_boid ?S k dt])[i := (?S[k := update_boid ?S k dt] ! i)\<lparr>biasval := v\<rparr>]"
      using False by (simp add: list_update_swap)
    finally show ?thesis unfolding unf goal .
  qed
qed

lemma update_boids_biasval_indep:
  assumes "i < length st" and "scout_group (st ! i) \<noteq> 1" and "scout_group (st ! i) \<noteq> 2"
  shows "update_boids (st[i := (st ! i)\<lparr>biasval := v\<rparr>]) dt =
           (update_boids st dt)[i := (update_boids st dt ! i)\<lparr>biasval := v\<rparr>]"
  using update_prefix_biasval [OF assms, of "length st" v dt] by (simp add: update_boids_def)

lemma run_biasval_indep:
  "i < length st \<Longrightarrow> scout_group (st ! i) \<noteq> 1 \<Longrightarrow> scout_group (st ! i) \<noteq> 2 \<Longrightarrow>
   run (st[i := (st ! i)\<lparr>biasval := v\<rparr>]) dts = (run st dts)[i := (run st dts ! i)\<lparr>biasval := v\<rparr>]"
proof (induction dts arbitrary: st)
  case Nil
  then show ?case by simp
next
  case (Cons dt dts)
  let ?st = "update_boids st dt"
  have "i < length ?st" "scout_group (?st ! i) \<noteq> 1" "scout_group (?st ! i) \<noteq> 2"
    using Cons.prems by (simp_all add: update_boids_scout_group)
  from Cons.IH [OF this] show ?case
    using Cons.prems by (simp add: update_boids_biasval_indep)
qed

subsection \<open>The batch helper\<close>

lemma update_boids_batch_frame:
  "update_boids_batch bs s e dt = Inr bs' \<Longrightarrow>
   length bs' = length bs \<and>
   (\<forall>i<length bs. scout_group (bs' ! i) = scout_group (bs ! i) \<and>
      (scout_group (bs ! i) \<noteq> 1 \<and> scout_group (bs ! i) \<noteq> 2 \<longrightarrow> biasval (bs' ! i) = biasval (bs ! i)))"
proof (induction bs s e dt rule: update_boids_batch.induct)
  case (1 boids start_idx end_idx deltaTime)
  show ?case
  proof (cases "start_idx < end_idx")
    case False
    then show ?thesis using "1.prems" by (simp add: update_boids_batch.simps)
  next
    case True
    show ?thesis
    proof (cases "0 \<le> start_idx \<and> start_idx < int (length boids)")
      case False
      have "update_boids_batch boids start_idx end_idx deltaTime = Inl OutOfRange"
        using True False by (subst update_boids_batch.simps) auto
      then show ?thesis using "1.prems" by simp
    next
      case inr: True
      let ?k = "nat start_idx"
      let ?bs = "boids[?k := update_boid boids ?k deltaTime]"
      have k: "?k < length boids" using inr by linarith
      have "update_boids_batch ?bs (start_idx + 1) end_idx deltaTime = Inr bs'"
        using True inr "1.prems" by (subst (asm) update_boids_batch.simps) simp
      from "1.IH" [OF True inr this]
      have ih: "length bs' = length ?bs"
        "\<And>i. i < length ?bs \<Longrightarrow> scout_group (bs' ! i) = scout_group (?bs ! i)"
        "\<And>i. i < length ?bs \<Longrightarrow> scout_group (?bs ! i) \<noteq> 1 \<Longrightarrow> scout_group (?bs ! i) \<noteq> 2 \<Longrightarrow>
              biasval (bs' ! i) = biasval (?bs ! i)"
        by simp_all
      have step: "scout_group (?bs ! i) = scout_group (boids ! i)"
        "scout_group (boids ! i) \<noteq> 1 \<Longrightarrow> scout_group (boids ! i) \<noteq> 2 \<Longrightarrow>
           biasval (?bs ! i) = biasval (boids ! i)" if "i < length boids" for i
        using that k by (simp_all add: nth_list_update update_boid_biasval_no_group)
      show ?thesis using ih step by simp
    qed
  qed
qed

text \<open>
  C8. No tick changes the group of any boid, whether the boids are updated by
  \<open>update_boids\<close> or by \<open>update_boids_batch\<close>. For a boid without a group
  (\<open>scout_group\<close> neither 1 nor 2; the initialisation uses 0): its \<open>biasval\<close> is never
  written, so it keeps its initial value 0 over any number of ticks; it is never read
  either, since replacing it by any value \<open>v\<close> in the store changes nothing in the
  result of the ticks but that field itself; and the two bias steps leave the boid, and
  so its \<open>vx\<close>, unchanged.
\<close>

theorem group_frame:
  "map scout_group (run bs dts) = map scout_group bs
   \<and> (update_boids_batch bs s e dt = Inr bs' \<longrightarrow> map scout_group bs' = map scout_group bs)
   \<and> (i < length bs \<and> scout_group (bs ! i) \<noteq> 1 \<and> scout_group (bs ! i) \<noteq> 2 \<longrightarrow>
        biasval (run bs dts ! i) = biasval (bs ! i)
        \<and> run (bs[i := (bs ! i)\<lparr>biasval := v\<rparr>]) dts = (run bs dts)[i := (run bs dts ! i)\<lparr>biasval := v\<rparr>]
        \<and> (update_boids_batch bs s e dt = Inr bs' \<longrightarrow> biasval (bs' ! i) = biasval (bs ! i)))
   \<and> (scout_group b \<noteq> 1 \<and> scout_group b \<noteq> 2 \<longrightarrow>
        bias_dynamics b = b \<and> apply_bias b = b \<and> vx (apply_bias (bias_dynamics b)) = vx b)"
proof -
  have batch: "map scout_group bs' = map scout_group bs"
    if "update_boids_batch bs s e dt = Inr bs'"
    using update_boids_batch_frame [OF that] by (intro nth_equalityI) simp_all
  have batch_bias: "biasval (bs' ! i) = biasval (bs ! i)"
    if "update_boids_batch bs s e dt = Inr bs'" "i < length bs"
       "scout_group (bs ! i) \<noteq> 1" "scout_group (bs ! i) \<noteq> 2"
    using update_boids_batch_frame [OF that(1)] that(2-4) by simp
  show ?thesis
    using batch batch_bias
    by (simp add: run_map_scout_group run_biasval_no_group run_biasval_indep bias_steps_no_group)
qed

theorem group_frame_witness:
  "0 < length store0 \<and> scout_group (store0 ! 0) \<noteq> 1 \<and> scout_group (store0 ! 0) \<noteq> 2
   \<and> update_boids_batch store0 0 1 (Num 1) = Inr (update_boids store0 (Num 1))
   \<and> map scout_group (update_boids store0 (Num 1)) = map scout_group store0
   \<and> biasval (run store0 [Num 1, Num 2] ! 0) = Num 0
   \<and> biasval (update_boids store0 (Num 1) ! 0) = Num 0
   \<and> run (store0[0 := (store0 ! 0)\<lparr>biasval := Num 7\<rparr>]) [Num 1, Num 2] =
       (run store0 [Num 1, Num 2])[0 := (run store0 [Num 1, Num 2] ! 0)\<lparr>biasval := Num 7\<rparr>]
   \<and> vx (apply_bias (bias_dynamics (store0 ! 0))) = Num 5"
proof -
  have h: "0 < length store0" "scout_group (store0 ! 0) \<noteq> 1" "scout_group (store0 ! 0) \<noteq> 2"
    by (simp_all add: store0_def)
  have b: "update_boids_batch store0 0 1 (Num 1) = Inr (update_boids store0 (Num 1))"
    using update_boids_batch_full [of store0 "Num 1"] by (simp add: store0_def)
  have v: "biasval (store0 ! 0) = Num 0" "vx (store0 ! 0) = Num 5" by (simp_all add: store0_def)
  from group_frame [of store0 "[Num 1, Num 2]" 0 1 "Num 1" "update_boids store0 (Num 1)" 0 "Num 7" "store0 ! 0"]
  show ?thesis using h b v by simp
qed

section \<open>The partition of the index range\<close>

lemma sint_of_nat_small: "n < 2 ^ 31 \<Longrightarrow> sint (of_nat n :: 32 word) = int n"
  by (simp add: signed_of_nat signed_take_bit_int_eq_self)

lemma of_nat_eq_32: "i < 2 ^ 32 \<Longrightarrow> j < 2 ^ 32 \<Longrightarrow> (of_nat i :: 32 word) = of_nat j \<longleftrightarrow> i = j"
  by (simp add: word_of_nat_eq_iff take_bit_nat_eq_self)

lemma mult_quotient_le: "k \<le> t \<Longrightarrow> k * (n div t) \<le> (n::nat)"
proof -
  assume "k \<le> t"
  then have "k * (n div t) \<le> t * (n div t)" by (rule mult_le_mono1)
  also have "\<dots> \<le> n" by simp
  finally show ?thesis .
qed

lemma unat_pos: "nthreads \<noteq> 0 \<Longrightarrow> 0 < unat (nthreads :: 32 word)"
  by (simp add: unat_gt_0)

lemma unat_lt32: "unat (nthreads :: 32 word) < 2 ^ 32"
  using unsigned_less [of nthreads, where 'a = nat] by simp

lemma start_idx_of_eq:
  assumes "sz < 2 ^ 31" and "i < unat nthreads"
  shows "start_idx_of sz nthreads (of_nat i) = int (i * (sz div unat nthreads))"
proof -
  have "i * (sz div unat nthreads) \<le> sz" using assms(2) by (simp add: mult_quotient_le)
  then have "i * (sz div unat nthreads) < 2 ^ 31" using assms(1) by simp
  then have "sint (of_nat (i * (sz div unat nthreads)) :: 32 word) = int (i * (sz div unat nthreads))"
    by (rule sint_of_nat_small)
  then show ?thesis by (simp add: start_idx_of_def batch_size_def)
qed

lemma last_index_iff:
  assumes "i < unat (nthreads :: 32 word)"
  shows "(of_nat i = nthreads - 1) \<longleftrightarrow> i = unat nthreads - 1"
proof -
  have pos: "1 \<le> unat nthreads" using assms by simp
  have "nthreads - 1 = (of_nat (unat nthreads) :: 32 word) - 1" by simp
  also have "\<dots> = of_nat (unat nthreads - 1)" using pos by (simp add: of_nat_diff)
  finally have "nthreads - 1 = of_nat (unat nthreads - 1)" .
  moreover have "i < 2 ^ 32" "unat nthreads - 1 < 2 ^ 32"
    using assms unat_lt32 [of nthreads] by simp_all
  ultimately show ?thesis by (simp add: of_nat_eq_32)
qed

lemma end_idx_of_eq:
  assumes "sz < 2 ^ 31" and "i < unat nthreads"
  shows "end_idx_of sz nthreads (of_nat i) =
           (if i = unat nthreads - 1 then int sz else int (Suc i * (sz div unat nthreads)))"
proof (cases "i = unat nthreads - 1")
  case True
  then have "of_nat i = nthreads - 1" using assms(2) by (simp add: last_index_iff)
  then show ?thesis using True assms(1) by (simp add: end_idx_of_def sint_of_nat_small)
next
  case False
  then have ne: "of_nat i \<noteq> nthreads - 1" using assms(2) by (simp add: last_index_iff)
  have "Suc i \<le> unat nthreads" using assms(2) by simp
  then have "Suc i * (sz div unat nthreads) \<le> sz" by (rule mult_quotient_le)
  then have "Suc i * (sz div unat nthreads) < 2 ^ 31" using assms(1) by simp
  then have "sint (of_nat (Suc i * (sz div unat nthreads)) :: 32 word) = int (Suc i * (sz div unat nthreads))"
    by (rule sint_of_nat_small)
  moreover have "(of_nat i + 1) * (of_nat (sz div unat nthreads) :: 32 word) =
      of_nat (Suc i * (sz div unat nthreads))" by (simp add: algebra_simps)
  ultimately show ?thesis using False ne by (simp only: end_idx_of_def batch_size_def if_False)
qed

text \<open>The batches as natural-number intervals.\<close>

lemma batch_exists:
  assumes "0 < t" and "j < n"
  shows "\<exists>k<t. k * (n div t) \<le> j \<and> j < (if k = t - 1 then n else Suc k * (n div t))"
proof (cases "j < (t - 1) * (n div t)")
  case True
  then have qpos: "0 < n div t" by (cases "n div t = 0") simp_all
  let ?k = "j div (n div t)"
  have "?k < t - 1" using True qpos by (simp add: div_less_iff_less_mult mult.commute)
  moreover have "?k * (n div t) \<le> j" by simp
  moreover have "j < Suc ?k * (n div t)" using qpos
    by (metis dividend_less_div_times add.commute mult_Suc mult.commute)
  ultimately show ?thesis by (intro exI [of _ ?k]) auto
next
  case False
  then show ?thesis using assms by (intro exI [of _ "t - 1"]) auto
qed

lemma batch_unique:
  assumes "k < t" "k' < t"
    and "k * (n div t) \<le> j" "j < (if k = t - 1 then n else Suc k * (n div t))"
    and "k' * (n div t) \<le> j" "j < (if k' = t - 1 then n else Suc k' * (n div t))"
  shows "k = (k'::nat)"
proof (rule ccontr)
  assume ne: "k \<noteq> k'"
  have disj: "a < b \<Longrightarrow> b < t \<Longrightarrow> j < (if a = t - 1 then n else Suc a * (n div t)) \<Longrightarrow>
              b * (n div t) \<le> j \<Longrightarrow> False" for a b
  proof -
    assume a: "a < b" "b < t" "j < (if a = t - 1 then n else Suc a * (n div t))" "b * (n div t) \<le> j"
    then have "a \<noteq> t - 1" by auto
    with a have "j < Suc a * (n div t)" by simp
    also have "\<dots> \<le> b * (n div t)" using a(1) by (intro mult_le_mono1) simp
    finally show False using a(4) by simp
  qed
  from ne consider "k < k'" | "k' < k" by (cases k k' rule: linorder_cases) auto
  then show False using disj assms by cases blast+
qed

lemma batches_eq:
  assumes "sz < 2 ^ 31" and "nthreads \<noteq> 0"
  shows "update_boids_parallel_batches sz nthreads =
           Inr (map (\<lambda>i. (int (i * (sz div unat nthreads)),
                            if i = unat nthreads - 1 then int sz
                            else int (Suc i * (sz div unat nthreads))))
                  [0..<unat nthreads])"
  using assms
  by (simp add: update_boids_parallel_batches_def start_idx_of_eq end_idx_of_eq)

text \<open>
  C3 (amended). For every population size \<open>N < 2^31\<close> (the indices are 32-bit \<^verbatim>\<open>int\<close>s)
  and every worker count \<open>T \<ge> 1\<close>, the scheduler hands out \<open>T\<close> contiguous batches
  starting at 0: each of the first \<open>T - 1\<close> holds \<open>N div T\<close> indices and ends where the
  next one starts, the last one ends at \<open>N\<close> and holds \<open>N - (T - 1) * (N div T)\<close>
  indices, every index of \<open>[0, N)\<close> lies in exactly one batch, and no batch holds an
  index outside \<open>[0, N)\<close>.
\<close>

theorem batches_partition:
  assumes "sz < 2 ^ 31" and "nthreads \<noteq> 0"
  shows "\<exists>bs. update_boids_parallel_batches sz nthreads = Inr bs
      \<and> length bs = unat nthreads
      \<and> fst (bs ! 0) = 0
      \<and> (\<forall>k. Suc k < unat nthreads \<longrightarrow>
            snd (bs ! k) - fst (bs ! k) = int (sz div unat nthreads)
            \<and> snd (bs ! k) = fst (bs ! Suc k))
      \<and> snd (bs ! (unat nthreads - 1)) = int sz
      \<and> snd (bs ! (unat nthreads - 1)) - fst (bs ! (unat nthreads - 1)) =
          int (sz - (unat nthreads - 1) * (sz div unat nthreads))
      \<and> (\<forall>j. j < sz \<longrightarrow> (\<exists>!k. k < unat nthreads \<and> fst (bs ! k) \<le> int j \<and> int j < snd (bs ! k)))
      \<and> (\<forall>k j. k < unat nthreads \<and> fst (bs ! k) \<le> j \<and> j < snd (bs ! k) \<longrightarrow> 0 \<le> j \<and> j < int sz)"
proof -
  let ?t = "unat nthreads"
  let ?q = "sz div ?t"
  let ?lo = "\<lambda>i. int (i * ?q)"
  let ?hi = "\<lambda>i. if i = ?t - 1 then int sz else int (Suc i * ?q)"
  let ?bs = "map (\<lambda>i. (?lo i, ?hi i)) [0..<?t]"
  have tpos: "0 < ?t" using assms(2) by (rule unat_pos)
  have eq: "update_boids_parallel_batches sz nthreads = Inr ?bs"
    using assms by (rule batches_eq)
  have nth: "?bs ! k = (?lo k, ?hi k)" if "k < ?t" for k
    using that by simp
  have c1: "length ?bs = ?t" by simp
  have c2: "fst (?bs ! 0) = 0" using tpos by (simp add: nth)
  have c3: "snd (?bs ! k) - fst (?bs ! k) = int ?q \<and> snd (?bs ! k) = fst (?bs ! Suc k)"
    if "Suc k < ?t" for k
  proof -
    have "k < ?t" "k \<noteq> ?t - 1" using that by simp_all
    then show ?thesis using that by (simp add: nth algebra_simps)
  qed
  have c4: "snd (?bs ! (?t - 1)) = int sz" using tpos by (simp add: nth)
  have le: "(?t - 1) * ?q \<le> sz" by (simp add: mult_quotient_le)
  have c5: "snd (?bs ! (?t - 1)) - fst (?bs ! (?t - 1)) = int (sz - (?t - 1) * ?q)"
    using tpos le by (simp add: nth of_nat_diff)
  have c6: "\<exists>!k. k < ?t \<and> fst (?bs ! k) \<le> int j \<and> int j < snd (?bs ! k)" if "j < sz" for j
  proof -
    from batch_exists [OF tpos that]
    obtain k where k: "k < ?t" "k * ?q \<le> j" "j < (if k = ?t - 1 then sz else Suc k * ?q)"
      by blast
    have inb: "fst (?bs ! i) \<le> int j \<and> int j < snd (?bs ! i) \<longleftrightarrow>
               i * ?q \<le> j \<and> j < (if i = ?t - 1 then sz else Suc i * ?q)" if "i < ?t" for i
      using that by (simp add: nth del: of_nat_mult of_nat_add mult_Suc)
    show ?thesis
    proof (rule ex1I [of _ k])
      show "k < ?t \<and> fst (?bs ! k) \<le> int j \<and> int j < snd (?bs ! k)"
        using k inb [of k] by blast
    next
      fix k'
      assume a: "k' < ?t \<and> fst (?bs ! k') \<le> int j \<and> int j < snd (?bs ! k')"
      then have "k' * ?q \<le> j" "j < (if k' = ?t - 1 then sz else Suc k' * ?q)"
        using inb [of k'] by blast+
      with a k show "k' = k" using batch_unique [of k' ?t k sz j] by blast
    qed
  qed
  have c7: "0 \<le> j \<and> j < int sz" if "k < ?t \<and> fst (?bs ! k) \<le> j \<and> j < snd (?bs ! k)" for k j
  proof -
    from that have kt: "k < ?t" and b: "fst (?bs ! k) \<le> j" "j < snd (?bs ! k)" by blast+
    have k: "k < ?t" "?lo k \<le> j" "j < ?hi k"
      using kt b unfolding nth [OF kt] by simp_all
    have "Suc k * ?q \<le> sz" using k(1) by (intro mult_quotient_le) simp
    then have "?hi k \<le> int sz" by (simp del: of_nat_mult of_nat_add mult_Suc)
    moreover have "0 \<le> ?lo k" by simp
    ultimately show ?thesis using k by linarith
  qed
  show ?thesis
    using eq c1 c2 c3 c4 c5 c6 c7 by (intro exI [of _ ?bs]) blast
qed

theorem batches_partition_witness:
  "(10::nat) < 2 ^ 31 \<and> (3 :: 32 word) \<noteq> 0
   \<and> (\<exists>bs. update_boids_parallel_batches 10 3 = Inr bs \<and> length bs = 3
         \<and> fst (bs ! 0) = 0 \<and> snd (bs ! 2) = 10 \<and> snd (bs ! 2) - fst (bs ! 2) = 4)"
proof -
  have h1: "(10::nat) < 2 ^ 31" by simp
  have h2: "(3 :: 32 word) \<noteq> 0" by simp
  have u: "unat (3 :: 32 word) = 3" by simp
  from batches_partition [OF h1 h2] obtain bs where
    "update_boids_parallel_batches 10 3 = Inr bs" "length bs = unat (3 :: 32 word)"
    "fst (bs ! 0) = 0" "snd (bs ! (unat (3 :: 32 word) - 1)) = int 10"
    "snd (bs ! (unat (3 :: 32 word) - 1)) - fst (bs ! (unat (3 :: 32 word) - 1)) =
       int (10 - (unat (3 :: 32 word) - 1) * (10 div unat (3 :: 32 word)))"
    by blast
  then show ?thesis using h1 h2 unfolding u by simp
qed

text \<open>
  C3 as stated (every \<open>N\<close>) fails: with \<open>N = 2^31\<close> boids and one worker, the batch
  size and the end index are narrowed to \<open>-2^31\<close>, so the only batch is \<open>[0, -2^31)\<close>,
  which is empty, and no boid is updated.
\<close>

theorem batches_overflow_counterexample:
  "update_boids_parallel_batches 2147483648 1 = Inr [(0, - 2147483648)]"
  by (simp add: update_boids_parallel_batches_def start_idx_of_def end_idx_of_def batch_size_def)

section \<open>The worker count\<close>

text \<open>
  C4. The worker count is taken once from the hardware parallelism. It does not fall back
  to 1 when that cannot be determined: the code takes the result of
  \<^verbatim>\<open>hardware_concurrency()\<close> as it is, so when that is 0, \<open>NUM_THREADS\<close> is 0 and the
  batch size \<open>N / NUM_THREADS\<close> is a division by zero.
\<close>

theorem threads_zero:
  "NUM_THREADS 0 = 0 \<and> update_boids_parallel_batches sz (NUM_THREADS 0) = Inl DivisionByZero"
  by (simp add: NUM_THREADS_def update_boids_parallel_batches_def)

section \<open>The batch helper over the full range is the sequential tick\<close>

lemma scan_step_same_place:
  assumes "x b = Num a" and "y b = Num c" and "close_dx acc = Num 0" and "close_dy acc = Num 0"
  shows "scan_step b acc b = acc"
  using assms by (simp add: scan_step_def Let_def consts_defs)

lemma scan_replicate:
  assumes "x b = Num a" and "y b = Num c" and "i < n"
  shows "scan (replicate n b) i = acc0"
proof -
  have step: "(if j = i then acc0 else scan_step b acc0 b) = acc0" for j
    using scan_step_same_place [OF assms(1,2), of acc0] by (simp add: acc0_def)
  have "foldl (\<lambda>acc j. if j = i then acc else scan_step (replicate n b ! i) acc (replicate n b ! j))
          acc0 js = acc0" if "set js \<subseteq> {0..<n}" for js
    using that
  proof (induction js)
    case Nil
    show ?case by simp
  next
    case (Cons j js)
    then have "j < n" by simp
    have "scan_step b acc0 b = acc0"
      using scan_step_same_place [OF assms(1,2), of acc0] by (simp add: acc0_def)
    then show ?case using Cons \<open>j < n\<close> assms(3) by simp
  qed
  then show ?thesis by (simp add: scan_def)
qed

lemma store_big_first:
  "biasval (update_boids store_big (Num 1) ! 0) = Num (5 / 1000)"
proof -
  let ?b = "\<lparr>x = Num 100, y = Num 100, vx = Num 5, vy = Num 0, biasval = Num 0, scout_group = 1\<rparr>"
  have s: "scan store_big 0 = acc0"
    unfolding store_big_def by (rule scan_replicate [where a = 100 and c = 100]) simp_all
  have n: "store_big ! 0 = ?b" by (simp add: store_big_def)
  have "vx (pre_bias store_big 0 (Num 1)) = Num 5"
    by (simp add: pre_bias_def s n acc0_def cohesion_alignment_def separation_def
        boundary_turn_def consts_defs)
  moreover have "biasval (pre_bias store_big 0 (Num 1)) = Num 0"
    "scout_group (pre_bias store_big 0 (Num 1)) = 1" by (simp_all add: n)
  ultimately have "biasval (bias_dynamics (pre_bias store_big 0 (Num 1))) = Num (5 / 1000)"
    by (simp add: bias_dynamics_def std_min_def consts_defs)
  moreover have "0 < length store_big" by (simp add: store_big_def)
  ultimately show ?thesis by (simp add: update_boids_nth update_boid_biasval)
qed

text \<open>
  C7 (amended). For every store of fewer than \<open>2^31\<close> boids (the two indices are 32-bit
  \<^verbatim>\<open>int\<close>s) and every \<open>deltaTime\<close>, the call of \<open>update_boids_batch\<close> on the single
  full index range, \<open>start_idx = 0\<close> and \<open>end_idx = N\<close>, returns (without leaving the
  vector) exactly the store that one call of the sequential \<open>update_boids\<close> produces.
\<close>

theorem batch_full_range_is_update_boids:
  "length boids < 2 ^ 31 \<Longrightarrow>
   update_boids_batch_call boids 0 (of_nat (length boids)) deltaTime =
     Inr (update_boids boids deltaTime)"
  using update_boids_batch_full [of boids deltaTime]
  by (simp add: update_boids_batch_call_def sint_of_nat_small)

theorem batch_full_range_witness:
  "length store_pair < 2 ^ 31 \<and>
   update_boids_batch_call store_pair 0 2 (Num 1) = Inr (update_boids store_pair (Num 1))"
proof -
  have h: "length store_pair < 2 ^ 31" by (simp add: store_pair_def)
  from batch_full_range_is_update_boids [OF h, of "Num 1"] show ?thesis
    using h by (simp add: store_pair_def)
qed

text \<open>
  C7 as stated (every store) fails: for a store of \<open>2^31\<close> boids the end index \<open>N\<close>
  reaches the function as \<open>-2^31\<close>, the loop does not start and the store is returned
  as it is, while \<open>update_boids\<close> changes it (the bias value of the first boid goes
  from 0 to 0.005).
\<close>

theorem batch_full_range_counterexample:
  "length store_big = 2147483648 \<and>
   update_boids_batch_call store_big 0 (of_nat (length store_big)) (Num 1) = Inr store_big \<and>
   biasval (store_big ! 0) = Num 0 \<and>
   biasval (update_boids store_big (Num 1) ! 0) = Num (5 / 1000) \<and>
   update_boids_batch_call store_big 0 (of_nat (length store_big)) (Num 1)
     \<noteq> Inr (update_boids store_big (Num 1))"
proof -
  have l: "length store_big = 2147483648" by (simp add: store_big_def)
  have c: "update_boids_batch_call store_big 0 (of_nat (length store_big)) (Num 1) = Inr store_big"
    unfolding l by (simp add: update_boids_batch_call_def update_boids_batch.simps)
  have b: "biasval (store_big ! 0) = Num 0" by (simp add: store_big_def)
  have "update_boids store_big (Num 1) \<noteq> store_big"
    using b store_big_first by auto
  then show ?thesis using l c b store_big_first by simp
qed

section \<open>The parallel tick depends on the schedule\<close>

subsection \<open>One iteration of a worker that is not interrupted\<close>

lemma run_schedule_append:
  "run_schedule dt (ts @ us) cfg =
     (case run_schedule dt ts cfg of Inl e \<Rightarrow> Inl e | Inr cfg' \<Rightarrow> run_schedule dt us cfg')"
proof (induction ts arbitrary: cfg)
  case Nil
  show ?case by simp
next
  case (Cons t ts)
  obtain boids ws where cfg: "cfg = (boids, ws)" by (cases cfg)
  show ?case unfolding cfg using Cons.IH
    by (simp split: sum.splits prod.splits)
qed

lemma worker_scan:
  assumes "t < length ws" and "i < length boids" and "int i < e" and "j \<le> length boids"
    and "ws ! t = \<lparr>w_idx = int i, w_end = e, w_pc = Scan j, w_acc = a\<rparr>"
  shows "run_schedule dt (replicate (length boids - j) t) (boids, ws) =
     Inr (boids, ws[t := \<lparr>w_idx = int i, w_end = e, w_pc = Scan (length boids),
            w_acc = foldl (\<lambda>acc k. if k = i then acc else scan_step (boids ! i) acc (boids ! k))
                      a [j..<length boids]\<rparr>])"
  using assms
proof (induction "length boids - j" arbitrary: j a ws)
  case 0
  then have "j = length boids" by simp
  moreover have "ws[t := ws ! t] = ws" by simp
  ultimately show ?case using "0.prems"(5) by simp
next
  case (Suc d)
  then have lt: "j < length boids" by simp
  let ?a = "if j = i then a else scan_step (boids ! i) a (boids ! j)"
  let ?ws = "ws[t := \<lparr>w_idx = int i, w_end = e, w_pc = Scan (Suc j), w_acc = ?a\<rparr>]"
  have step: "worker_step dt boids (ws ! t) =
      Inr (boids, \<lparr>w_idx = int i, w_end = e, w_pc = Scan (Suc j), w_acc = ?a\<rparr>)"
    using Suc.prems lt by (simp add: worker_step_def Let_def)
  have "d = length boids - Suc j" using Suc.hyps(2) by simp
  moreover have "t < length ?ws" "Suc j \<le> length boids"
    "?ws ! t = \<lparr>w_idx = int i, w_end = e, w_pc = Scan (Suc j), w_acc = ?a\<rparr>"
    using Suc.prems lt by simp_all
  ultimately have ih: "run_schedule dt (replicate (length boids - Suc j) t) (boids, ?ws) =
     Inr (boids, ?ws[t := \<lparr>w_idx = int i, w_end = e, w_pc = Scan (length boids),
            w_acc = foldl (\<lambda>acc k. if k = i then acc else scan_step (boids ! i) acc (boids ! k))
                      ?a [Suc j..<length boids]\<rparr>])"
    using Suc.prems(2,3) by (intro Suc.hyps(1)) simp_all
  have r: "replicate (length boids - j) t = t # replicate (length boids - Suc j) t"
    using lt by (simp add: Suc_diff_Suc flip: replicate_Suc)
  show ?case
    unfolding r using Suc.prems(1) step ih lt by (simp add: upt_conv_Cons)
qed

lemma worker_until_move:
  assumes "t < length ws" and "i < length boids" and "int i < e"
    and "ws ! t = \<lparr>w_idx = int i, w_end = e, w_pc = Scan 0, w_acc = acc0\<rparr>"
  shows "run_schedule dt (replicate (length boids + 6) t) (boids, ws) =
     Inr (boids[i := speed_control (pre_clamp boids i dt)],
          ws[t := \<lparr>w_idx = int i, w_end = e, w_pc = Move, w_acc = scan boids i\<rparr>])"
proof -
  have r: "replicate (length boids + 6) t = replicate (length boids - 0) t @ [t, t, t, t, t, t]"
    by (simp add: replicate_add [symmetric] numeral_eq_Suc flip: replicate_append_same)
  have s: "run_schedule dt (replicate (length boids - 0) t) (boids, ws) =
     Inr (boids, ws[t := \<lparr>w_idx = int i, w_end = e, w_pc = Scan (length boids),
            w_acc = scan boids i\<rparr>])"
    unfolding scan_def using assms by (intro worker_scan) simp_all
  show ?thesis
    unfolding r run_schedule_append s using assms(1-3)
    by (simp add: worker_step_def Let_def pre_clamp_def pre_bias_def)
qed

lemma worker_iteration:
  assumes "t < length ws" and "i < length boids" and "int i < e"
    and "ws ! t = \<lparr>w_idx = int i, w_end = e, w_pc = Scan 0, w_acc = acc0\<rparr>"
  shows "run_schedule dt (replicate (length boids + 7) t) (boids, ws) =
     Inr (boids[i := update_boid boids i dt],
          ws[t := \<lparr>w_idx = int i + 1, w_end = e, w_pc = Scan 0, w_acc = acc0\<rparr>])"
proof -
  have r: "replicate (length boids + 7) t = replicate (length boids + 6) t @ [t]"
    by (simp add: numeral_eq_Suc flip: replicate_append_same)
  show ?thesis
    unfolding r run_schedule_append worker_until_move [OF assms] using assms(1-3)
    by (simp add: worker_step_def Let_def update_boid_def)
qed

lemma iteration_2:
  assumes "length boids = 2" and "t < length ws" and "i < 2" and "int i < e"
    and "ws ! t = \<lparr>w_idx = int i, w_end = e, w_pc = Scan 0, w_acc = acc0\<rparr>"
  shows "run_schedule dt (replicate 9 t) (boids, ws) =
     Inr (boids[i := update_boid boids i dt],
          ws[t := \<lparr>w_idx = int i + 1, w_end = e, w_pc = Scan 0, w_acc = acc0\<rparr>])"
    and "run_schedule dt (replicate 8 t) (boids, ws) =
     Inr (boids[i := speed_control (pre_clamp boids i dt)],
          ws[t := \<lparr>w_idx = int i, w_end = e, w_pc = Move, w_acc = scan boids i\<rparr>])"
  using worker_iteration [of t ws i boids e dt] worker_until_move [of t ws i boids e dt] assms
  by simp_all

subsection \<open>The two boids on a line\<close>

lemma scan_2:
  "scan [b0, b1] 0 = scan_step b0 acc0 b1" "scan [b0, b1] (Suc 0) = scan_step b1 acc0 b0"
  by (simp_all add: scan_def upt_rec)

lemma speed_of_along_x:
  "speed_of \<lparr>x = px, y = py, vx = Num a, vy = Num 0, biasval = bv, scout_group = g\<rparr> = Num \<bar>a\<bar>"
  by (simp add: speed_of_def)

lemma pre_clamp_2:
  "pre_clamp [b0, b1] 0 dt =
     (let acc = scan_step b0 acc0 b1
      in apply_bias (bias_dynamics (boundary_turn (separation acc dt (cohesion_alignment acc b0)))))"
  "pre_clamp [b0, b1] (Suc 0) dt =
     (let acc = scan_step b1 acc0 b0
      in apply_bias (bias_dynamics (boundary_turn (separation acc dt (cohesion_alignment acc b1)))))"
  by (simp_all add: pre_clamp_def pre_bias_def scan_2 Let_def)

lemma update_boid_2:
  "update_boid [b0, b1] 0 dt =
     (let acc = scan_step b0 acc0 b1
      in advance_position dt (speed_control (apply_bias (bias_dynamics (boundary_turn
           (separation acc dt (cohesion_alignment acc b0)))))))"
  "update_boid [b0, b1] (Suc 0) dt =
     (let acc = scan_step b1 acc0 b0
      in advance_position dt (speed_control (apply_bias (bias_dynamics (boundary_turn
           (separation acc dt (cohesion_alignment acc b1)))))))"
  by (simp_all add: update_boid_def pre_clamp_2 Let_def)

lemma line_first_0:
  "update_boid
     [\<lparr>x = Num 100, y = Num 100, vx = Num 20, vy = Num 0, biasval = Num 0, scout_group = 0\<rparr>,
      \<lparr>x = Num 130, y = Num 100, vx = Num 20, vy = Num 0, biasval = Num 0, scout_group = 0\<rparr>] 0 (Num 1) =
     \<lparr>x = Num (2403 / 20), y = Num 100, vx = Num (403 / 20), vy = Num 0, biasval = Num 0, scout_group = 0\<rparr>"
proof -
  have s: "scan_step \<lparr>x = Num 100, y = Num 100, vx = Num 20, vy = Num 0, biasval = Num 0, scout_group = 0\<rparr> acc0
      \<lparr>x = Num 130, y = Num 100, vx = Num 20, vy = Num 0, biasval = Num 0, scout_group = 0\<rparr> =
      \<lparr>xpos_avg = Num 130, ypos_avg = Num 100, xvel_avg = Num 20, yvel_avg = Num 0, neighboring_boids = 1, close_dx = Num 0, close_dy = Num 0\<rparr>"
    by (simp add: scan_step_def Let_def acc0_def consts_defs)
  have c: "cohesion_alignment \<lparr>xpos_avg = Num 130, ypos_avg = Num 100, xvel_avg = Num 20, yvel_avg = Num 0, neighboring_boids = 1, close_dx = Num 0, close_dy = Num 0\<rparr>
      \<lparr>x = Num 100, y = Num 100, vx = Num 20, vy = Num 0, biasval = Num 0, scout_group = 0\<rparr> =
      \<lparr>x = Num 100, y = Num 100, vx = Num (403 / 20), vy = Num 0, biasval = Num 0, scout_group = 0\<rparr>"
    by (simp add: cohesion_alignment_def Let_def consts_defs)
  have p: "separation \<lparr>xpos_avg = Num 130, ypos_avg = Num 100, xvel_avg = Num 20, yvel_avg = Num 0, neighboring_boids = 1, close_dx = Num 0, close_dy = Num 0\<rparr> (Num 1)
      \<lparr>x = Num 100, y = Num 100, vx = Num (403 / 20), vy = Num 0, biasval = Num 0, scout_group = 0\<rparr> =
      \<lparr>x = Num 100, y = Num 100, vx = Num (403 / 20), vy = Num 0, biasval = Num 0, scout_group = 0\<rparr>"
    by (simp add: separation_def consts_defs)
  have t: "boundary_turn \<lparr>x = Num 100, y = Num 100, vx = Num (403 / 20), vy = Num 0, biasval = Num 0, scout_group = 0\<rparr> =
      \<lparr>x = Num 100, y = Num 100, vx = Num (403 / 20), vy = Num 0, biasval = Num 0, scout_group = 0\<rparr>"
    by (simp add: boundary_turn_def consts_defs)
  have d: "bias_dynamics \<lparr>x = Num 100, y = Num 100, vx = Num (403 / 20), vy = Num 0, biasval = Num 0, scout_group = 0\<rparr> =
      \<lparr>x = Num 100, y = Num 100, vx = Num (403 / 20), vy = Num 0, biasval = Num 0, scout_group = 0\<rparr>"
    by (simp add: bias_dynamics_def)
  have a: "apply_bias \<lparr>x = Num 100, y = Num 100, vx = Num (403 / 20), vy = Num 0, biasval = Num 0, scout_group = 0\<rparr> =
      \<lparr>x = Num 100, y = Num 100, vx = Num (403 / 20), vy = Num 0, biasval = Num 0, scout_group = 0\<rparr>"
    by (simp add: apply_bias_def)
  have k: "speed_control \<lparr>x = Num 100, y = Num 100, vx = Num (403 / 20), vy = Num 0, biasval = Num 0, scout_group = 0\<rparr> =
      \<lparr>x = Num 100, y = Num 100, vx = Num (403 / 20), vy = Num 0, biasval = Num 0, scout_group = 0\<rparr>"
    by (simp add: speed_control_def speed_of_along_x clamp_def consts_defs)
  have m: "advance_position (Num 1) \<lparr>x = Num 100, y = Num 100, vx = Num (403 / 20), vy = Num 0, biasval = Num 0, scout_group = 0\<rparr> =
      \<lparr>x = Num (2403 / 20), y = Num 100, vx = Num (403 / 20), vy = Num 0, biasval = Num 0, scout_group = 0\<rparr>"
    by (simp add: advance_position_def)
  show ?thesis by (simp only: update_boid_2 Let_def s c p t d a k m)
qed

lemma line_then_1:
  "update_boid
     [\<lparr>x = Num (2403 / 20), y = Num 100, vx = Num (403 / 20), vy = Num 0, biasval = Num 0, scout_group = 0\<rparr>,
      \<lparr>x = Num 130, y = Num 100, vx = Num 20, vy = Num 0, biasval = Num 0, scout_group = 0\<rparr>] (Suc 0) (Num 1) =
     \<lparr>x = Num (60197 / 400), y = Num 100, vx = Num (8197 / 400), vy = Num 0, biasval = Num 0, scout_group = 0\<rparr>"
proof -
  have s: "scan_step \<lparr>x = Num 130, y = Num 100, vx = Num 20, vy = Num 0, biasval = Num 0, scout_group = 0\<rparr> acc0
      \<lparr>x = Num (2403 / 20), y = Num 100, vx = Num (403 / 20), vy = Num 0, biasval = Num 0, scout_group = 0\<rparr> =
      \<lparr>xpos_avg = Num 0, ypos_avg = Num 0, xvel_avg = Num 0, yvel_avg = Num 0, neighboring_boids = 0, close_dx = Num (197 / 20), close_dy = Num 0\<rparr>"
    by (simp add: scan_step_def Let_def acc0_def consts_defs)
  have c: "cohesion_alignment \<lparr>xpos_avg = Num 0, ypos_avg = Num 0, xvel_avg = Num 0, yvel_avg = Num 0, neighboring_boids = 0, close_dx = Num (197 / 20), close_dy = Num 0\<rparr>
      \<lparr>x = Num 130, y = Num 100, vx = Num 20, vy = Num 0, biasval = Num 0, scout_group = 0\<rparr> =
      \<lparr>x = Num 130, y = Num 100, vx = Num 20, vy = Num 0, biasval = Num 0, scout_group = 0\<rparr>"
    by (simp add: cohesion_alignment_def Let_def consts_defs)
  have p: "separation \<lparr>xpos_avg = Num 0, ypos_avg = Num 0, xvel_avg = Num 0, yvel_avg = Num 0, neighboring_boids = 0, close_dx = Num (197 / 20), close_dy = Num 0\<rparr> (Num 1)
      \<lparr>x = Num 130, y = Num 100, vx = Num 20, vy = Num 0, biasval = Num 0, scout_group = 0\<rparr> =
      \<lparr>x = Num 130, y = Num 100, vx = Num (8197 / 400), vy = Num 0, biasval = Num 0, scout_group = 0\<rparr>"
    by (simp add: separation_def consts_defs)
  have t: "boundary_turn \<lparr>x = Num 130, y = Num 100, vx = Num (8197 / 400), vy = Num 0, biasval = Num 0, scout_group = 0\<rparr> =
      \<lparr>x = Num 130, y = Num 100, vx = Num (8197 / 400), vy = Num 0, biasval = Num 0, scout_group = 0\<rparr>"
    by (simp add: boundary_turn_def consts_defs)
  have d: "bias_dynamics \<lparr>x = Num 130, y = Num 100, vx = Num (8197 / 400), vy = Num 0, biasval = Num 0, scout_group = 0\<rparr> =
      \<lparr>x = Num 130, y = Num 100, vx = Num (8197 / 400), vy = Num 0, biasval = Num 0, scout_group = 0\<rparr>"
    by (simp add: bias_dynamics_def)
  have a: "apply_bias \<lparr>x = Num 130, y = Num 100, vx = Num (8197 / 400), vy = Num 0, biasval = Num 0, scout_group = 0\<rparr> =
      \<lparr>x = Num 130, y = Num 100, vx = Num (8197 / 400), vy = Num 0, biasval = Num 0, scout_group = 0\<rparr>"
    by (simp add: apply_bias_def)
  have k: "speed_control \<lparr>x = Num 130, y = Num 100, vx = Num (8197 / 400), vy = Num 0, biasval = Num 0, scout_group = 0\<rparr> =
      \<lparr>x = Num 130, y = Num 100, vx = Num (8197 / 400), vy = Num 0, biasval = Num 0, scout_group = 0\<rparr>"
    by (simp add: speed_control_def speed_of_along_x clamp_def consts_defs)
  have m: "advance_position (Num 1) \<lparr>x = Num 130, y = Num 100, vx = Num (8197 / 400), vy = Num 0, biasval = Num 0, scout_group = 0\<rparr> =
      \<lparr>x = Num (60197 / 400), y = Num 100, vx = Num (8197 / 400), vy = Num 0, biasval = Num 0, scout_group = 0\<rparr>"
    by (simp add: advance_position_def)
  show ?thesis by (simp only: update_boid_2 Let_def s c p t d a k m)
qed

lemma line_first_1:
  "update_boid
     [\<lparr>x = Num 100, y = Num 100, vx = Num 20, vy = Num 0, biasval = Num 0, scout_group = 0\<rparr>,
      \<lparr>x = Num 130, y = Num 100, vx = Num 20, vy = Num 0, biasval = Num 0, scout_group = 0\<rparr>] (Suc 0) (Num 1) =
     \<lparr>x = Num (2997 / 20), y = Num 100, vx = Num (397 / 20), vy = Num 0, biasval = Num 0, scout_group = 0\<rparr>"
proof -
  have s: "scan_step \<lparr>x = Num 130, y = Num 100, vx = Num 20, vy = Num 0, biasval = Num 0, scout_group = 0\<rparr> acc0
      \<lparr>x = Num 100, y = Num 100, vx = Num 20, vy = Num 0, biasval = Num 0, scout_group = 0\<rparr> =
      \<lparr>xpos_avg = Num 100, ypos_avg = Num 100, xvel_avg = Num 20, yvel_avg = Num 0, neighboring_boids = 1, close_dx = Num 0, close_dy = Num 0\<rparr>"
    by (simp add: scan_step_def Let_def acc0_def consts_defs)
  have c: "cohesion_alignment \<lparr>xpos_avg = Num 100, ypos_avg = Num 100, xvel_avg = Num 20, yvel_avg = Num 0, neighboring_boids = 1, close_dx = Num 0, close_dy = Num 0\<rparr>
      \<lparr>x = Num 130, y = Num 100, vx = Num 20, vy = Num 0, biasval = Num 0, scout_group = 0\<rparr> =
      \<lparr>x = Num 130, y = Num 100, vx = Num (397 / 20), vy = Num 0, biasval = Num 0, scout_group = 0\<rparr>"
    by (simp add: cohesion_alignment_def Let_def consts_defs)
  have p: "separation \<lparr>xpos_avg = Num 100, ypos_avg = Num 100, xvel_avg = Num 20, yvel_avg = Num 0, neighboring_boids = 1, close_dx = Num 0, close_dy = Num 0\<rparr> (Num 1)
      \<lparr>x = Num 130, y = Num 100, vx = Num (397 / 20), vy = Num 0, biasval = Num 0, scout_group = 0\<rparr> =
      \<lparr>x = Num 130, y = Num 100, vx = Num (397 / 20), vy = Num 0, biasval = Num 0, scout_group = 0\<rparr>"
    by (simp add: separation_def consts_defs)
  have t: "boundary_turn \<lparr>x = Num 130, y = Num 100, vx = Num (397 / 20), vy = Num 0, biasval = Num 0, scout_group = 0\<rparr> =
      \<lparr>x = Num 130, y = Num 100, vx = Num (397 / 20), vy = Num 0, biasval = Num 0, scout_group = 0\<rparr>"
    by (simp add: boundary_turn_def consts_defs)
  have d: "bias_dynamics \<lparr>x = Num 130, y = Num 100, vx = Num (397 / 20), vy = Num 0, biasval = Num 0, scout_group = 0\<rparr> =
      \<lparr>x = Num 130, y = Num 100, vx = Num (397 / 20), vy = Num 0, biasval = Num 0, scout_group = 0\<rparr>"
    by (simp add: bias_dynamics_def)
  have a: "apply_bias \<lparr>x = Num 130, y = Num 100, vx = Num (397 / 20), vy = Num 0, biasval = Num 0, scout_group = 0\<rparr> =
      \<lparr>x = Num 130, y = Num 100, vx = Num (397 / 20), vy = Num 0, biasval = Num 0, scout_group = 0\<rparr>"
    by (simp add: apply_bias_def)
  have k: "speed_control \<lparr>x = Num 130, y = Num 100, vx = Num (397 / 20), vy = Num 0, biasval = Num 0, scout_group = 0\<rparr> =
      \<lparr>x = Num 130, y = Num 100, vx = Num (397 / 20), vy = Num 0, biasval = Num 0, scout_group = 0\<rparr>"
    by (simp add: speed_control_def speed_of_along_x clamp_def consts_defs)
  have m: "advance_position (Num 1) \<lparr>x = Num 130, y = Num 100, vx = Num (397 / 20), vy = Num 0, biasval = Num 0, scout_group = 0\<rparr> =
      \<lparr>x = Num (2997 / 20), y = Num 100, vx = Num (397 / 20), vy = Num 0, biasval = Num 0, scout_group = 0\<rparr>"
    by (simp add: advance_position_def)
  show ?thesis by (simp only: update_boid_2 Let_def s c p t d a k m)
qed

lemma line_then_0:
  "update_boid
     [\<lparr>x = Num 100, y = Num 100, vx = Num 20, vy = Num 0, biasval = Num 0, scout_group = 0\<rparr>,
      \<lparr>x = Num (2997 / 20), y = Num 100, vx = Num (397 / 20), vy = Num 0, biasval = Num 0, scout_group = 0\<rparr>] 0 (Num 1) =
     \<lparr>x = Num (480967 / 4000), y = Num 100, vx = Num (80967 / 4000), vy = Num 0, biasval = Num 0, scout_group = 0\<rparr>"
proof -
  have s: "scan_step \<lparr>x = Num 100, y = Num 100, vx = Num 20, vy = Num 0, biasval = Num 0, scout_group = 0\<rparr> acc0
      \<lparr>x = Num (2997 / 20), y = Num 100, vx = Num (397 / 20), vy = Num 0, biasval = Num 0, scout_group = 0\<rparr> =
      \<lparr>xpos_avg = Num (2997 / 20), ypos_avg = Num 100, xvel_avg = Num (397 / 20), yvel_avg = Num 0, neighboring_boids = 1, close_dx = Num 0, close_dy = Num 0\<rparr>"
    by (simp add: scan_step_def Let_def acc0_def consts_defs)
  have c: "cohesion_alignment \<lparr>xpos_avg = Num (2997 / 20), ypos_avg = Num 100, xvel_avg = Num (397 / 20), yvel_avg = Num 0, neighboring_boids = 1, close_dx = Num 0, close_dy = Num 0\<rparr>
      \<lparr>x = Num 100, y = Num 100, vx = Num 20, vy = Num 0, biasval = Num 0, scout_group = 0\<rparr> =
      \<lparr>x = Num 100, y = Num 100, vx = Num (80967 / 4000), vy = Num 0, biasval = Num 0, scout_group = 0\<rparr>"
    by (simp add: cohesion_alignment_def Let_def consts_defs)
  have p: "separation \<lparr>xpos_avg = Num (2997 / 20), ypos_avg = Num 100, xvel_avg = Num (397 / 20), yvel_avg = Num 0, neighboring_boids = 1, close_dx = Num 0, close_dy = Num 0\<rparr> (Num 1)
      \<lparr>x = Num 100, y = Num 100, vx = Num (80967 / 4000), vy = Num 0, biasval = Num 0, scout_group = 0\<rparr> =
      \<lparr>x = Num 100, y = Num 100, vx = Num (80967 / 4000), vy = Num 0, biasval = Num 0, scout_group = 0\<rparr>"
    by (simp add: separation_def consts_defs)
  have t: "boundary_turn \<lparr>x = Num 100, y = Num 100, vx = Num (80967 / 4000), vy = Num 0, biasval = Num 0, scout_group = 0\<rparr> =
      \<lparr>x = Num 100, y = Num 100, vx = Num (80967 / 4000), vy = Num 0, biasval = Num 0, scout_group = 0\<rparr>"
    by (simp add: boundary_turn_def consts_defs)
  have d: "bias_dynamics \<lparr>x = Num 100, y = Num 100, vx = Num (80967 / 4000), vy = Num 0, biasval = Num 0, scout_group = 0\<rparr> =
      \<lparr>x = Num 100, y = Num 100, vx = Num (80967 / 4000), vy = Num 0, biasval = Num 0, scout_group = 0\<rparr>"
    by (simp add: bias_dynamics_def)
  have a: "apply_bias \<lparr>x = Num 100, y = Num 100, vx = Num (80967 / 4000), vy = Num 0, biasval = Num 0, scout_group = 0\<rparr> =
      \<lparr>x = Num 100, y = Num 100, vx = Num (80967 / 4000), vy = Num 0, biasval = Num 0, scout_group = 0\<rparr>"
    by (simp add: apply_bias_def)
  have k: "speed_control \<lparr>x = Num 100, y = Num 100, vx = Num (80967 / 4000), vy = Num 0, biasval = Num 0, scout_group = 0\<rparr> =
      \<lparr>x = Num 100, y = Num 100, vx = Num (80967 / 4000), vy = Num 0, biasval = Num 0, scout_group = 0\<rparr>"
    by (simp add: speed_control_def speed_of_along_x clamp_def consts_defs)
  have m: "advance_position (Num 1) \<lparr>x = Num 100, y = Num 100, vx = Num (80967 / 4000), vy = Num 0, biasval = Num 0, scout_group = 0\<rparr> =
      \<lparr>x = Num (480967 / 4000), y = Num 100, vx = Num (80967 / 4000), vy = Num 0, biasval = Num 0, scout_group = 0\<rparr>"
    by (simp add: advance_position_def)
  show ?thesis by (simp only: update_boid_2 Let_def s c p t d a k m)
qed

lemma line_partial_0:
  "speed_control (pre_clamp
     [\<lparr>x = Num 100, y = Num 100, vx = Num 20, vy = Num 0, biasval = Num 0, scout_group = 0\<rparr>,
      \<lparr>x = Num 130, y = Num 100, vx = Num 20, vy = Num 0, biasval = Num 0, scout_group = 0\<rparr>] 0 (Num 1)) =
     \<lparr>x = Num 100, y = Num 100, vx = Num (403 / 20), vy = Num 0, biasval = Num 0, scout_group = 0\<rparr>"
proof -
  have s: "scan_step \<lparr>x = Num 100, y = Num 100, vx = Num 20, vy = Num 0, biasval = Num 0, scout_group = 0\<rparr> acc0
      \<lparr>x = Num 130, y = Num 100, vx = Num 20, vy = Num 0, biasval = Num 0, scout_group = 0\<rparr> =
      \<lparr>xpos_avg = Num 130, ypos_avg = Num 100, xvel_avg = Num 20, yvel_avg = Num 0, neighboring_boids = 1, close_dx = Num 0, close_dy = Num 0\<rparr>"
    by (simp add: scan_step_def Let_def acc0_def consts_defs)
  have c: "cohesion_alignment \<lparr>xpos_avg = Num 130, ypos_avg = Num 100, xvel_avg = Num 20, yvel_avg = Num 0, neighboring_boids = 1, close_dx = Num 0, close_dy = Num 0\<rparr>
      \<lparr>x = Num 100, y = Num 100, vx = Num 20, vy = Num 0, biasval = Num 0, scout_group = 0\<rparr> =
      \<lparr>x = Num 100, y = Num 100, vx = Num (403 / 20), vy = Num 0, biasval = Num 0, scout_group = 0\<rparr>"
    by (simp add: cohesion_alignment_def Let_def consts_defs)
  have p: "separation \<lparr>xpos_avg = Num 130, ypos_avg = Num 100, xvel_avg = Num 20, yvel_avg = Num 0, neighboring_boids = 1, close_dx = Num 0, close_dy = Num 0\<rparr> (Num 1)
      \<lparr>x = Num 100, y = Num 100, vx = Num (403 / 20), vy = Num 0, biasval = Num 0, scout_group = 0\<rparr> =
      \<lparr>x = Num 100, y = Num 100, vx = Num (403 / 20), vy = Num 0, biasval = Num 0, scout_group = 0\<rparr>"
    by (simp add: separation_def consts_defs)
  have t: "boundary_turn \<lparr>x = Num 100, y = Num 100, vx = Num (403 / 20), vy = Num 0, biasval = Num 0, scout_group = 0\<rparr> =
      \<lparr>x = Num 100, y = Num 100, vx = Num (403 / 20), vy = Num 0, biasval = Num 0, scout_group = 0\<rparr>"
    by (simp add: boundary_turn_def consts_defs)
  have d: "bias_dynamics \<lparr>x = Num 100, y = Num 100, vx = Num (403 / 20), vy = Num 0, biasval = Num 0, scout_group = 0\<rparr> =
      \<lparr>x = Num 100, y = Num 100, vx = Num (403 / 20), vy = Num 0, biasval = Num 0, scout_group = 0\<rparr>"
    by (simp add: bias_dynamics_def)
  have a: "apply_bias \<lparr>x = Num 100, y = Num 100, vx = Num (403 / 20), vy = Num 0, biasval = Num 0, scout_group = 0\<rparr> =
      \<lparr>x = Num 100, y = Num 100, vx = Num (403 / 20), vy = Num 0, biasval = Num 0, scout_group = 0\<rparr>"
    by (simp add: apply_bias_def)
  have k: "speed_control \<lparr>x = Num 100, y = Num 100, vx = Num (403 / 20), vy = Num 0, biasval = Num 0, scout_group = 0\<rparr> =
      \<lparr>x = Num 100, y = Num 100, vx = Num (403 / 20), vy = Num 0, biasval = Num 0, scout_group = 0\<rparr>"
    by (simp add: speed_control_def speed_of_along_x clamp_def consts_defs)
  show ?thesis by (simp only: pre_clamp_2 Let_def s c p t d a k)
qed

lemma line_partial_then_1:
  "update_boid
     [\<lparr>x = Num 100, y = Num 100, vx = Num (403 / 20), vy = Num 0, biasval = Num 0, scout_group = 0\<rparr>,
      \<lparr>x = Num 130, y = Num 100, vx = Num 20, vy = Num 0, biasval = Num 0, scout_group = 0\<rparr>] (Suc 0) (Num 1) =
     \<lparr>x = Num (59943 / 400), y = Num 100, vx = Num (7943 / 400), vy = Num 0, biasval = Num 0, scout_group = 0\<rparr>"
proof -
  have s: "scan_step \<lparr>x = Num 130, y = Num 100, vx = Num 20, vy = Num 0, biasval = Num 0, scout_group = 0\<rparr> acc0
      \<lparr>x = Num 100, y = Num 100, vx = Num (403 / 20), vy = Num 0, biasval = Num 0, scout_group = 0\<rparr> =
      \<lparr>xpos_avg = Num 100, ypos_avg = Num 100, xvel_avg = Num (403 / 20), yvel_avg = Num 0, neighboring_boids = 1, close_dx = Num 0, close_dy = Num 0\<rparr>"
    by (simp add: scan_step_def Let_def acc0_def consts_defs)
  have c: "cohesion_alignment \<lparr>xpos_avg = Num 100, ypos_avg = Num 100, xvel_avg = Num (403 / 20), yvel_avg = Num 0, neighboring_boids = 1, close_dx = Num 0, close_dy = Num 0\<rparr>
      \<lparr>x = Num 130, y = Num 100, vx = Num 20, vy = Num 0, biasval = Num 0, scout_group = 0\<rparr> =
      \<lparr>x = Num 130, y = Num 100, vx = Num (7943 / 400), vy = Num 0, biasval = Num 0, scout_group = 0\<rparr>"
    by (simp add: cohesion_alignment_def Let_def consts_defs)
  have p: "separation \<lparr>xpos_avg = Num 100, ypos_avg = Num 100, xvel_avg = Num (403 / 20), yvel_avg = Num 0, neighboring_boids = 1, close_dx = Num 0, close_dy = Num 0\<rparr> (Num 1)
      \<lparr>x = Num 130, y = Num 100, vx = Num (7943 / 400), vy = Num 0, biasval = Num 0, scout_group = 0\<rparr> =
      \<lparr>x = Num 130, y = Num 100, vx = Num (7943 / 400), vy = Num 0, biasval = Num 0, scout_group = 0\<rparr>"
    by (simp add: separation_def consts_defs)
  have t: "boundary_turn \<lparr>x = Num 130, y = Num 100, vx = Num (7943 / 400), vy = Num 0, biasval = Num 0, scout_group = 0\<rparr> =
      \<lparr>x = Num 130, y = Num 100, vx = Num (7943 / 400), vy = Num 0, biasval = Num 0, scout_group = 0\<rparr>"
    by (simp add: boundary_turn_def consts_defs)
  have d: "bias_dynamics \<lparr>x = Num 130, y = Num 100, vx = Num (7943 / 400), vy = Num 0, biasval = Num 0, scout_group = 0\<rparr> =
      \<lparr>x = Num 130, y = Num 100, vx = Num (7943 / 400), vy = Num 0, biasval = Num 0, scout_group = 0\<rparr>"
    by (simp add: bias_dynamics_def)
  have a: "apply_bias \<lparr>x = Num 130, y = Num 100, vx = Num (7943 / 400), vy = Num 0, biasval = Num 0, scout_group = 0\<rparr> =
      \<lparr>x = Num 130, y = Num 100, vx = Num (7943 / 400), vy = Num 0, biasval = Num 0, scout_group = 0\<rparr>"
    by (simp add: apply_bias_def)
  have k: "speed_control \<lparr>x = Num 130, y = Num 100, vx = Num (7943 / 400), vy = Num 0, biasval = Num 0, scout_group = 0\<rparr> =
      \<lparr>x = Num 130, y = Num 100, vx = Num (7943 / 400), vy = Num 0, biasval = Num 0, scout_group = 0\<rparr>"
    by (simp add: speed_control_def speed_of_along_x clamp_def consts_defs)
  have m: "advance_position (Num 1) \<lparr>x = Num 130, y = Num 100, vx = Num (7943 / 400), vy = Num 0, biasval = Num 0, scout_group = 0\<rparr> =
      \<lparr>x = Num (59943 / 400), y = Num 100, vx = Num (7943 / 400), vy = Num 0, biasval = Num 0, scout_group = 0\<rparr>"
    by (simp add: advance_position_def)
  show ?thesis by (simp only: update_boid_2 Let_def s c p t d a k m)
qed

lemma line_partial_move:
  "advance_position (Num 1) \<lparr>x = Num 100, y = Num 100, vx = Num (403 / 20), vy = Num 0, biasval = Num 0, scout_group = 0\<rparr> =
     \<lparr>x = Num (2403 / 20), y = Num 100, vx = Num (403 / 20), vy = Num 0, biasval = Num 0, scout_group = 0\<rparr>"
  by (simp add: advance_position_def)

lemma line_sequential:
  "update_boids store_line (Num 1) =
     [\<lparr>x = Num (2403 / 20), y = Num 100, vx = Num (403 / 20), vy = Num 0, biasval = Num 0, scout_group = 0\<rparr>,
      \<lparr>x = Num (60197 / 400), y = Num 100, vx = Num (8197 / 400), vy = Num 0, biasval = Num 0, scout_group = 0\<rparr>]"
  by (simp add: update_boids_def update_prefix_def store_line_def upt_rec line_first_0 line_then_1)

lemma line_observed:
  "scan [\<lparr>x = Num (2403 / 20), y = Num 100, vx = Num (403 / 20), vy = Num 0, biasval = Num 0, scout_group = 0\<rparr>,
      \<lparr>x = Num 130, y = Num 100, vx = Num 20, vy = Num 0, biasval = Num 0, scout_group = 0\<rparr>] (Suc 0) =
     \<lparr>xpos_avg = Num 0, ypos_avg = Num 0, xvel_avg = Num 0, yvel_avg = Num 0, neighboring_boids = 0, close_dx = Num (197 / 20), close_dy = Num 0\<rparr>"
  "scan [\<lparr>x = Num 100, y = Num 100, vx = Num 20, vy = Num 0, biasval = Num 0, scout_group = 0\<rparr>,
      \<lparr>x = Num 130, y = Num 100, vx = Num 20, vy = Num 0, biasval = Num 0, scout_group = 0\<rparr>] (Suc 0) =
     \<lparr>xpos_avg = Num 100, ypos_avg = Num 100, xvel_avg = Num 20, yvel_avg = Num 0, neighboring_boids = 1, close_dx = Num 0, close_dy = Num 0\<rparr>"
  "scan [\<lparr>x = Num 100, y = Num 100, vx = Num (403 / 20), vy = Num 0, biasval = Num 0, scout_group = 0\<rparr>,
      \<lparr>x = Num 130, y = Num 100, vx = Num 20, vy = Num 0, biasval = Num 0, scout_group = 0\<rparr>] (Suc 0) =
     \<lparr>xpos_avg = Num 100, ypos_avg = Num 100, xvel_avg = Num (403 / 20), yvel_avg = Num 0, neighboring_boids = 1, close_dx = Num 0, close_dy = Num 0\<rparr>"
  by (simp_all add: scan_2 scan_step_def Let_def acc0_def consts_defs)

subsection \<open>Three schedules of two workers\<close>

lemma batches_2_2: "update_boids_parallel_batches 2 2 = Inr [(0, 1), (1, 2)]"
proof -
  have u: "[0..<unat (2 :: 32 word)] = [0, 1]" by (simp add: upt_rec)
  show ?thesis
    unfolding update_boids_parallel_batches_def u
    by (simp add: start_idx_of_def end_idx_of_def batch_size_def)
qed

lemma start_2:
  "update_boids_parallel 2 schedule store_line dt =
     run_schedule dt schedule
       ([\<lparr>x = Num 100, y = Num 100, vx = Num 20, vy = Num 0, biasval = Num 0, scout_group = 0\<rparr>,
        \<lparr>x = Num 130, y = Num 100, vx = Num 20, vy = Num 0, biasval = Num 0, scout_group = 0\<rparr>],
        [\<lparr>w_idx = 0, w_end = 1, w_pc = Scan 0, w_acc = acc0\<rparr>,
         \<lparr>w_idx = 1, w_end = 2, w_pc = Scan 0, w_acc = acc0\<rparr>])"
proof -
  have l: "length store_line = 2" by (simp add: store_line_def)
  show ?thesis unfolding update_boids_parallel_def l batches_2_2
    by (simp add: spawn_def store_line_def)
qed

lemma start_1:
  "update_boids_parallel 1 schedule store_line dt =
     run_schedule dt schedule
       ([\<lparr>x = Num 100, y = Num 100, vx = Num 20, vy = Num 0, biasval = Num 0, scout_group = 0\<rparr>,
        \<lparr>x = Num 130, y = Num 100, vx = Num 20, vy = Num 0, biasval = Num 0, scout_group = 0\<rparr>],
        [\<lparr>w_idx = 0, w_end = 2, w_pc = Scan 0, w_acc = acc0\<rparr>])"
proof -
  have l: "length store_line = 2" by (simp add: store_line_def)
  have b: "update_boids_parallel_batches 2 1 = Inr [(0, 2)]"
    by (simp add: update_boids_parallel_batches_def start_idx_of_def end_idx_of_def batch_size_def)
  show ?thesis unfolding update_boids_parallel_def l b
    by (simp add: spawn_def store_line_def)
qed

lemma scan_steps_2:
  assumes "length boids = 2" and "t < length ws" and "i < 2" and "int i < e"
    and "ws ! t = \<lparr>w_idx = int i, w_end = e, w_pc = Scan 0, w_acc = acc0\<rparr>"
  shows "run_schedule dt [t, t] (boids, ws) =
     Inr (boids, ws[t := \<lparr>w_idx = int i, w_end = e, w_pc = Scan 2, w_acc = scan boids i\<rparr>])"
proof -
  have "run_schedule dt (replicate (length boids - 0) t) (boids, ws) =
     Inr (boids, ws[t := \<lparr>w_idx = int i, w_end = e, w_pc = Scan (length boids),
            w_acc = scan boids i\<rparr>])"
    unfolding scan_def using assms by (intro worker_scan) simp_all
  then show ?thesis using assms(1) by (simp add: numeral_2_eq_2)
qed

lemma run_A:
  "run_schedule (Num 1) (replicate 9 0)
       ([\<lparr>x = Num 100, y = Num 100, vx = Num 20, vy = Num 0, biasval = Num 0, scout_group = 0\<rparr>,
        \<lparr>x = Num 130, y = Num 100, vx = Num 20, vy = Num 0, biasval = Num 0, scout_group = 0\<rparr>],
        [\<lparr>w_idx = 0, w_end = 1, w_pc = Scan 0, w_acc = acc0\<rparr>,
         \<lparr>w_idx = 1, w_end = 2, w_pc = Scan 0, w_acc = acc0\<rparr>]) =
   Inr ([\<lparr>x = Num (2403 / 20), y = Num 100, vx = Num (403 / 20), vy = Num 0, biasval = Num 0, scout_group = 0\<rparr>,
        \<lparr>x = Num 130, y = Num 100, vx = Num 20, vy = Num 0, biasval = Num 0, scout_group = 0\<rparr>],
        [\<lparr>w_idx = 1, w_end = 1, w_pc = Scan 0, w_acc = acc0\<rparr>,
         \<lparr>w_idx = 1, w_end = 2, w_pc = Scan 0, w_acc = acc0\<rparr>])"
  using iteration_2(1) [of _ 0 _ 0 1 "Num 1"] line_first_0 by simp

lemma run_A2:
  "run_schedule (Num 1) (replicate 9 (Suc 0))
       ([\<lparr>x = Num (2403 / 20), y = Num 100, vx = Num (403 / 20), vy = Num 0, biasval = Num 0, scout_group = 0\<rparr>,
        \<lparr>x = Num 130, y = Num 100, vx = Num 20, vy = Num 0, biasval = Num 0, scout_group = 0\<rparr>],
        [\<lparr>w_idx = 1, w_end = 1, w_pc = Scan 0, w_acc = acc0\<rparr>,
         \<lparr>w_idx = 1, w_end = 2, w_pc = Scan 0, w_acc = acc0\<rparr>]) =
   Inr ([\<lparr>x = Num (2403 / 20), y = Num 100, vx = Num (403 / 20), vy = Num 0, biasval = Num 0, scout_group = 0\<rparr>,
        \<lparr>x = Num (60197 / 400), y = Num 100, vx = Num (8197 / 400), vy = Num 0, biasval = Num 0, scout_group = 0\<rparr>],
        [\<lparr>w_idx = 1, w_end = 1, w_pc = Scan 0, w_acc = acc0\<rparr>,
         \<lparr>w_idx = 2, w_end = 2, w_pc = Scan 0, w_acc = acc0\<rparr>])"
  using iteration_2(1) [of _ "Suc 0" _ "Suc 0" 2 "Num 1"] line_then_1 by simp

lemma run_B:
  "run_schedule (Num 1) (replicate 9 (Suc 0))
       ([\<lparr>x = Num 100, y = Num 100, vx = Num 20, vy = Num 0, biasval = Num 0, scout_group = 0\<rparr>,
        \<lparr>x = Num 130, y = Num 100, vx = Num 20, vy = Num 0, biasval = Num 0, scout_group = 0\<rparr>],
        [\<lparr>w_idx = 0, w_end = 1, w_pc = Scan 0, w_acc = acc0\<rparr>,
         \<lparr>w_idx = 1, w_end = 2, w_pc = Scan 0, w_acc = acc0\<rparr>]) =
   Inr ([\<lparr>x = Num 100, y = Num 100, vx = Num 20, vy = Num 0, biasval = Num 0, scout_group = 0\<rparr>,
        \<lparr>x = Num (2997 / 20), y = Num 100, vx = Num (397 / 20), vy = Num 0, biasval = Num 0, scout_group = 0\<rparr>],
        [\<lparr>w_idx = 0, w_end = 1, w_pc = Scan 0, w_acc = acc0\<rparr>,
         \<lparr>w_idx = 2, w_end = 2, w_pc = Scan 0, w_acc = acc0\<rparr>])"
  using iteration_2(1) [of _ "Suc 0" _ "Suc 0" 2 "Num 1"] line_first_1 by simp

lemma run_B2:
  "run_schedule (Num 1) (replicate 9 0)
       ([\<lparr>x = Num 100, y = Num 100, vx = Num 20, vy = Num 0, biasval = Num 0, scout_group = 0\<rparr>,
        \<lparr>x = Num (2997 / 20), y = Num 100, vx = Num (397 / 20), vy = Num 0, biasval = Num 0, scout_group = 0\<rparr>],
        [\<lparr>w_idx = 0, w_end = 1, w_pc = Scan 0, w_acc = acc0\<rparr>,
         \<lparr>w_idx = 2, w_end = 2, w_pc = Scan 0, w_acc = acc0\<rparr>]) =
   Inr ([\<lparr>x = Num (480967 / 4000), y = Num 100, vx = Num (80967 / 4000), vy = Num 0, biasval = Num 0, scout_group = 0\<rparr>,
        \<lparr>x = Num (2997 / 20), y = Num 100, vx = Num (397 / 20), vy = Num 0, biasval = Num 0, scout_group = 0\<rparr>],
        [\<lparr>w_idx = 1, w_end = 1, w_pc = Scan 0, w_acc = acc0\<rparr>,
         \<lparr>w_idx = 2, w_end = 2, w_pc = Scan 0, w_acc = acc0\<rparr>])"
  using iteration_2(1) [of _ 0 _ 0 1 "Num 1"] line_then_0 by simp

lemma scan_line_0:
  "scan [\<lparr>x = Num 100, y = Num 100, vx = Num 20, vy = Num 0, biasval = Num 0, scout_group = 0\<rparr>,
        \<lparr>x = Num 130, y = Num 100, vx = Num 20, vy = Num 0, biasval = Num 0, scout_group = 0\<rparr>] 0 =
     \<lparr>xpos_avg = Num 130, ypos_avg = Num 100, xvel_avg = Num 20, yvel_avg = Num 0, neighboring_boids = 1, close_dx = Num 0, close_dy = Num 0\<rparr>"
  by (simp add: scan_2 scan_step_def Let_def acc0_def consts_defs)

lemma run_C:
  "run_schedule (Num 1) (replicate 8 0)
       ([\<lparr>x = Num 100, y = Num 100, vx = Num 20, vy = Num 0, biasval = Num 0, scout_group = 0\<rparr>,
        \<lparr>x = Num 130, y = Num 100, vx = Num 20, vy = Num 0, biasval = Num 0, scout_group = 0\<rparr>],
        [\<lparr>w_idx = 0, w_end = 1, w_pc = Scan 0, w_acc = acc0\<rparr>,
         \<lparr>w_idx = 1, w_end = 2, w_pc = Scan 0, w_acc = acc0\<rparr>]) =
   Inr ([\<lparr>x = Num 100, y = Num 100, vx = Num (403 / 20), vy = Num 0, biasval = Num 0, scout_group = 0\<rparr>,
        \<lparr>x = Num 130, y = Num 100, vx = Num 20, vy = Num 0, biasval = Num 0, scout_group = 0\<rparr>],
        [\<lparr>w_idx = 0, w_end = 1, w_pc = Move, w_acc = \<lparr>xpos_avg = Num 130, ypos_avg = Num 100, xvel_avg = Num 20, yvel_avg = Num 0, neighboring_boids = 1, close_dx = Num 0, close_dy = Num 0\<rparr>\<rparr>,
         \<lparr>w_idx = 1, w_end = 2, w_pc = Scan 0, w_acc = acc0\<rparr>])"
  using iteration_2(2) [of _ 0 _ 0 1 "Num 1"] line_partial_0 scan_line_0 by simp

lemma run_C2:
  "run_schedule (Num 1) (replicate 9 (Suc 0))
       ([\<lparr>x = Num 100, y = Num 100, vx = Num (403 / 20), vy = Num 0, biasval = Num 0, scout_group = 0\<rparr>,
        \<lparr>x = Num 130, y = Num 100, vx = Num 20, vy = Num 0, biasval = Num 0, scout_group = 0\<rparr>],
        [\<lparr>w_idx = 0, w_end = 1, w_pc = Move, w_acc = \<lparr>xpos_avg = Num 130, ypos_avg = Num 100, xvel_avg = Num 20, yvel_avg = Num 0, neighboring_boids = 1, close_dx = Num 0, close_dy = Num 0\<rparr>\<rparr>,
         \<lparr>w_idx = 1, w_end = 2, w_pc = Scan 0, w_acc = acc0\<rparr>]) =
   Inr ([\<lparr>x = Num 100, y = Num 100, vx = Num (403 / 20), vy = Num 0, biasval = Num 0, scout_group = 0\<rparr>,
        \<lparr>x = Num (59943 / 400), y = Num 100, vx = Num (7943 / 400), vy = Num 0, biasval = Num 0, scout_group = 0\<rparr>],
        [\<lparr>w_idx = 0, w_end = 1, w_pc = Move, w_acc = \<lparr>xpos_avg = Num 130, ypos_avg = Num 100, xvel_avg = Num 20, yvel_avg = Num 0, neighboring_boids = 1, close_dx = Num 0, close_dy = Num 0\<rparr>\<rparr>,
         \<lparr>w_idx = 2, w_end = 2, w_pc = Scan 0, w_acc = acc0\<rparr>])"
  using iteration_2(1) [of _ "Suc 0" _ "Suc 0" 2 "Num 1"] line_partial_then_1 by simp

lemma run_C3:
  "run_schedule (Num 1) [0]
       ([\<lparr>x = Num 100, y = Num 100, vx = Num (403 / 20), vy = Num 0, biasval = Num 0, scout_group = 0\<rparr>,
        \<lparr>x = Num (59943 / 400), y = Num 100, vx = Num (7943 / 400), vy = Num 0, biasval = Num 0, scout_group = 0\<rparr>],
        [\<lparr>w_idx = 0, w_end = 1, w_pc = Move, w_acc = \<lparr>xpos_avg = Num 130, ypos_avg = Num 100, xvel_avg = Num 20, yvel_avg = Num 0, neighboring_boids = 1, close_dx = Num 0, close_dy = Num 0\<rparr>\<rparr>,
         \<lparr>w_idx = 2, w_end = 2, w_pc = Scan 0, w_acc = acc0\<rparr>]) =
   Inr ([\<lparr>x = Num (2403 / 20), y = Num 100, vx = Num (403 / 20), vy = Num 0, biasval = Num 0, scout_group = 0\<rparr>,
        \<lparr>x = Num (59943 / 400), y = Num 100, vx = Num (7943 / 400), vy = Num 0, biasval = Num 0, scout_group = 0\<rparr>],
        [\<lparr>w_idx = 1, w_end = 1, w_pc = Scan 0, w_acc = acc0\<rparr>,
         \<lparr>w_idx = 2, w_end = 2, w_pc = Scan 0, w_acc = acc0\<rparr>])"
  by (simp add: worker_step_def line_partial_move)

lemma see_A:
  "run_schedule (Num 1) [Suc 0, Suc 0]
       ([\<lparr>x = Num (2403 / 20), y = Num 100, vx = Num (403 / 20), vy = Num 0, biasval = Num 0, scout_group = 0\<rparr>,
        \<lparr>x = Num 130, y = Num 100, vx = Num 20, vy = Num 0, biasval = Num 0, scout_group = 0\<rparr>],
        [\<lparr>w_idx = 1, w_end = 1, w_pc = Scan 0, w_acc = acc0\<rparr>,
         \<lparr>w_idx = 1, w_end = 2, w_pc = Scan 0, w_acc = acc0\<rparr>]) =
   Inr ([\<lparr>x = Num (2403 / 20), y = Num 100, vx = Num (403 / 20), vy = Num 0, biasval = Num 0, scout_group = 0\<rparr>,
        \<lparr>x = Num 130, y = Num 100, vx = Num 20, vy = Num 0, biasval = Num 0, scout_group = 0\<rparr>],
        [\<lparr>w_idx = 1, w_end = 1, w_pc = Scan 0, w_acc = acc0\<rparr>,
         \<lparr>w_idx = 1, w_end = 2, w_pc = Scan 2, w_acc = \<lparr>xpos_avg = Num 0, ypos_avg = Num 0, xvel_avg = Num 0, yvel_avg = Num 0, neighboring_boids = 0, close_dx = Num (197 / 20), close_dy = Num 0\<rparr>\<rparr>])"
  using scan_steps_2 [of _ "Suc 0" _ "Suc 0" 2 "Num 1"] line_observed(1) by simp

lemma see_B:
  "run_schedule (Num 1) [Suc 0, Suc 0]
       ([\<lparr>x = Num 100, y = Num 100, vx = Num 20, vy = Num 0, biasval = Num 0, scout_group = 0\<rparr>,
        \<lparr>x = Num 130, y = Num 100, vx = Num 20, vy = Num 0, biasval = Num 0, scout_group = 0\<rparr>],
        [\<lparr>w_idx = 0, w_end = 1, w_pc = Scan 0, w_acc = acc0\<rparr>,
         \<lparr>w_idx = 1, w_end = 2, w_pc = Scan 0, w_acc = acc0\<rparr>]) =
   Inr ([\<lparr>x = Num 100, y = Num 100, vx = Num 20, vy = Num 0, biasval = Num 0, scout_group = 0\<rparr>,
        \<lparr>x = Num 130, y = Num 100, vx = Num 20, vy = Num 0, biasval = Num 0, scout_group = 0\<rparr>],
        [\<lparr>w_idx = 0, w_end = 1, w_pc = Scan 0, w_acc = acc0\<rparr>,
         \<lparr>w_idx = 1, w_end = 2, w_pc = Scan 2, w_acc = \<lparr>xpos_avg = Num 100, ypos_avg = Num 100, xvel_avg = Num 20, yvel_avg = Num 0, neighboring_boids = 1, close_dx = Num 0, close_dy = Num 0\<rparr>\<rparr>])"
  using scan_steps_2 [of _ "Suc 0" _ "Suc 0" 2 "Num 1"] line_observed(2) by simp

lemma see_C:
  "run_schedule (Num 1) [Suc 0, Suc 0]
       ([\<lparr>x = Num 100, y = Num 100, vx = Num (403 / 20), vy = Num 0, biasval = Num 0, scout_group = 0\<rparr>,
        \<lparr>x = Num 130, y = Num 100, vx = Num 20, vy = Num 0, biasval = Num 0, scout_group = 0\<rparr>],
        [\<lparr>w_idx = 0, w_end = 1, w_pc = Move, w_acc = \<lparr>xpos_avg = Num 130, ypos_avg = Num 100, xvel_avg = Num 20, yvel_avg = Num 0, neighboring_boids = 1, close_dx = Num 0, close_dy = Num 0\<rparr>\<rparr>,
         \<lparr>w_idx = 1, w_end = 2, w_pc = Scan 0, w_acc = acc0\<rparr>]) =
   Inr ([\<lparr>x = Num 100, y = Num 100, vx = Num (403 / 20), vy = Num 0, biasval = Num 0, scout_group = 0\<rparr>,
        \<lparr>x = Num 130, y = Num 100, vx = Num 20, vy = Num 0, biasval = Num 0, scout_group = 0\<rparr>],
        [\<lparr>w_idx = 0, w_end = 1, w_pc = Move, w_acc = \<lparr>xpos_avg = Num 130, ypos_avg = Num 100, xvel_avg = Num 20, yvel_avg = Num 0, neighboring_boids = 1, close_dx = Num 0, close_dy = Num 0\<rparr>\<rparr>,
         \<lparr>w_idx = 1, w_end = 2, w_pc = Scan 2, w_acc = \<lparr>xpos_avg = Num 100, ypos_avg = Num 100, xvel_avg = Num (403 / 20), yvel_avg = Num 0, neighboring_boids = 1, close_dx = Num 0, close_dy = Num 0\<rparr>\<rparr>])"
  using scan_steps_2 [of _ "Suc 0" _ "Suc 0" 2 "Num 1"] line_observed(3) by simp

lemma run_single:
  "run_schedule (Num 1) (replicate 9 0)
       ([\<lparr>x = Num 100, y = Num 100, vx = Num 20, vy = Num 0, biasval = Num 0, scout_group = 0\<rparr>,
        \<lparr>x = Num 130, y = Num 100, vx = Num 20, vy = Num 0, biasval = Num 0, scout_group = 0\<rparr>],
        [\<lparr>w_idx = 0, w_end = 2, w_pc = Scan 0, w_acc = acc0\<rparr>]) =
   Inr ([\<lparr>x = Num (2403 / 20), y = Num 100, vx = Num (403 / 20), vy = Num 0, biasval = Num 0, scout_group = 0\<rparr>,
        \<lparr>x = Num 130, y = Num 100, vx = Num 20, vy = Num 0, biasval = Num 0, scout_group = 0\<rparr>],
        [\<lparr>w_idx = 1, w_end = 2, w_pc = Scan 0, w_acc = acc0\<rparr>])"
  "run_schedule (Num 1) (replicate 9 0)
       ([\<lparr>x = Num (2403 / 20), y = Num 100, vx = Num (403 / 20), vy = Num 0, biasval = Num 0, scout_group = 0\<rparr>,
        \<lparr>x = Num 130, y = Num 100, vx = Num 20, vy = Num 0, biasval = Num 0, scout_group = 0\<rparr>],
        [\<lparr>w_idx = 1, w_end = 2, w_pc = Scan 0, w_acc = acc0\<rparr>]) =
   Inr ([\<lparr>x = Num (2403 / 20), y = Num 100, vx = Num (403 / 20), vy = Num 0, biasval = Num 0, scout_group = 0\<rparr>,
        \<lparr>x = Num (60197 / 400), y = Num 100, vx = Num (8197 / 400), vy = Num 0, biasval = Num 0, scout_group = 0\<rparr>],
        [\<lparr>w_idx = 2, w_end = 2, w_pc = Scan 0, w_acc = acc0\<rparr>])"
  using iteration_2(1) [of _ 0 _ 0 2 "Num 1"] iteration_2(1) [of _ 0 _ "Suc 0" 2 "Num 1"]
    line_first_0 line_then_1 by simp_all

text \<open>
  C10. On \<open>store_line\<close> with two workers (one boid each), three schedules after which
  both workers have returned: worker 0 first, which gives the store of the sequential
  \<open>update_boids\<close>; worker 1 first; and worker 1 run between the last velocity write and
  the position write of worker 0. The three final stores differ from one another, so the
  parallel tick is not the sequential one and its result depends on the schedule. In
  its scan worker 1 reads boid 0 fully updated in the first schedule (new position: the
  boid is now in the protected range), in its previous state in the second, and partly
  updated in the third (new velocity, old position). With one worker the tick gives the
  sequential store, so the result depends on the worker count as well.
\<close>

theorem parallel_tick_depends_on_schedule:
  "update_boids_parallel 2 (replicate 9 0 @ replicate 9 1) store_line (Num 1) =
     Inr (update_boids store_line (Num 1),
          [\<lparr>w_idx = 1, w_end = 1, w_pc = Scan 0, w_acc = acc0\<rparr>,
           \<lparr>w_idx = 2, w_end = 2, w_pc = Scan 0, w_acc = acc0\<rparr>])
   \<and> update_boids_parallel 2 (replicate 9 1 @ replicate 9 0) store_line (Num 1) =
     Inr ([\<lparr>x = Num (480967 / 4000), y = Num 100, vx = Num (80967 / 4000), vy = Num 0, biasval = Num 0, scout_group = 0\<rparr>,
        \<lparr>x = Num (2997 / 20), y = Num 100, vx = Num (397 / 20), vy = Num 0, biasval = Num 0, scout_group = 0\<rparr>],
          [\<lparr>w_idx = 1, w_end = 1, w_pc = Scan 0, w_acc = acc0\<rparr>,
           \<lparr>w_idx = 2, w_end = 2, w_pc = Scan 0, w_acc = acc0\<rparr>])
   \<and> update_boids_parallel 2 (replicate 8 0 @ replicate 9 1 @ [0]) store_line (Num 1) =
     Inr ([\<lparr>x = Num (2403 / 20), y = Num 100, vx = Num (403 / 20), vy = Num 0, biasval = Num 0, scout_group = 0\<rparr>,
        \<lparr>x = Num (59943 / 400), y = Num 100, vx = Num (7943 / 400), vy = Num 0, biasval = Num 0, scout_group = 0\<rparr>],
          [\<lparr>w_idx = 1, w_end = 1, w_pc = Scan 0, w_acc = acc0\<rparr>,
           \<lparr>w_idx = 2, w_end = 2, w_pc = Scan 0, w_acc = acc0\<rparr>])
   \<and> all_joined [\<lparr>w_idx = 1, w_end = 1, w_pc = Scan 0, w_acc = acc0\<rparr>,
                 \<lparr>w_idx = 2, w_end = 2, w_pc = Scan 0, w_acc = acc0\<rparr>]
   \<and> update_boids store_line (Num 1) =
       [\<lparr>x = Num (2403 / 20), y = Num 100, vx = Num (403 / 20), vy = Num 0, biasval = Num 0, scout_group = 0\<rparr>,
        \<lparr>x = Num (60197 / 400), y = Num 100, vx = Num (8197 / 400), vy = Num 0, biasval = Num 0, scout_group = 0\<rparr>]
   \<and> update_boids_parallel 2 (replicate 9 0 @ [1, 1]) store_line (Num 1) =
     Inr ([\<lparr>x = Num (2403 / 20), y = Num 100, vx = Num (403 / 20), vy = Num 0, biasval = Num 0, scout_group = 0\<rparr>,
        \<lparr>x = Num 130, y = Num 100, vx = Num 20, vy = Num 0, biasval = Num 0, scout_group = 0\<rparr>],
          [\<lparr>w_idx = 1, w_end = 1, w_pc = Scan 0, w_acc = acc0\<rparr>,
           \<lparr>w_idx = 1, w_end = 2, w_pc = Scan 2, w_acc = \<lparr>xpos_avg = Num 0, ypos_avg = Num 0, xvel_avg = Num 0, yvel_avg = Num 0, neighboring_boids = 0, close_dx = Num (197 / 20), close_dy = Num 0\<rparr>\<rparr>])
   \<and> update_boids_parallel 2 [1, 1] store_line (Num 1) =
     Inr ([\<lparr>x = Num 100, y = Num 100, vx = Num 20, vy = Num 0, biasval = Num 0, scout_group = 0\<rparr>,
        \<lparr>x = Num 130, y = Num 100, vx = Num 20, vy = Num 0, biasval = Num 0, scout_group = 0\<rparr>],
          [\<lparr>w_idx = 0, w_end = 1, w_pc = Scan 0, w_acc = acc0\<rparr>,
           \<lparr>w_idx = 1, w_end = 2, w_pc = Scan 2, w_acc = \<lparr>xpos_avg = Num 100, ypos_avg = Num 100, xvel_avg = Num 20, yvel_avg = Num 0, neighboring_boids = 1, close_dx = Num 0, close_dy = Num 0\<rparr>\<rparr>])
   \<and> update_boids_parallel 2 (replicate 8 0 @ [1, 1]) store_line (Num 1) =
     Inr ([\<lparr>x = Num 100, y = Num 100, vx = Num (403 / 20), vy = Num 0, biasval = Num 0, scout_group = 0\<rparr>,
        \<lparr>x = Num 130, y = Num 100, vx = Num 20, vy = Num 0, biasval = Num 0, scout_group = 0\<rparr>],
          [\<lparr>w_idx = 0, w_end = 1, w_pc = Move, w_acc = \<lparr>xpos_avg = Num 130, ypos_avg = Num 100, xvel_avg = Num 20, yvel_avg = Num 0, neighboring_boids = 1, close_dx = Num 0, close_dy = Num 0\<rparr>\<rparr>,
           \<lparr>w_idx = 1, w_end = 2, w_pc = Scan 2, w_acc = \<lparr>xpos_avg = Num 100, ypos_avg = Num 100, xvel_avg = Num (403 / 20), yvel_avg = Num 0, neighboring_boids = 1, close_dx = Num 0, close_dy = Num 0\<rparr>\<rparr>])
   \<and> update_boids_parallel 1 (replicate 9 0 @ replicate 9 0) store_line (Num 1) =
     Inr (update_boids store_line (Num 1),
          [\<lparr>w_idx = 2, w_end = 2, w_pc = Scan 0, w_acc = acc0\<rparr>])
   \<and> [\<lparr>x = Num (480967 / 4000), y = Num 100, vx = Num (80967 / 4000), vy = Num 0, biasval = Num 0, scout_group = 0\<rparr>,
        \<lparr>x = Num (2997 / 20), y = Num 100, vx = Num (397 / 20), vy = Num 0, biasval = Num 0, scout_group = 0\<rparr>]
       \<noteq> update_boids store_line (Num 1)
   \<and> [\<lparr>x = Num (2403 / 20), y = Num 100, vx = Num (403 / 20), vy = Num 0, biasval = Num 0, scout_group = 0\<rparr>,
        \<lparr>x = Num (59943 / 400), y = Num 100, vx = Num (7943 / 400), vy = Num 0, biasval = Num 0, scout_group = 0\<rparr>]
       \<noteq> update_boids store_line (Num 1)
   \<and> [\<lparr>x = Num (480967 / 4000), y = Num 100, vx = Num (80967 / 4000), vy = Num 0, biasval = Num 0, scout_group = 0\<rparr>,
        \<lparr>x = Num (2997 / 20), y = Num 100, vx = Num (397 / 20), vy = Num 0, biasval = Num 0, scout_group = 0\<rparr>]
       \<noteq> [\<lparr>x = Num (2403 / 20), y = Num 100, vx = Num (403 / 20), vy = Num 0, biasval = Num 0, scout_group = 0\<rparr>,
        \<lparr>x = Num (59943 / 400), y = Num 100, vx = Num (7943 / 400), vy = Num 0, biasval = Num 0, scout_group = 0\<rparr>]"
proof -
  have a: "update_boids_parallel 2 (replicate 9 0 @ replicate 9 1) store_line (Num 1) =
     Inr (update_boids store_line (Num 1),
          [\<lparr>w_idx = 1, w_end = 1, w_pc = Scan 0, w_acc = acc0\<rparr>,
           \<lparr>w_idx = 2, w_end = 2, w_pc = Scan 0, w_acc = acc0\<rparr>])"
    unfolding start_2 run_schedule_append line_sequential One_nat_def run_A
    by (simp only: sum.case run_A2)
  have b: "update_boids_parallel 2 (replicate 9 1 @ replicate 9 0) store_line (Num 1) =
     Inr ([\<lparr>x = Num (480967 / 4000), y = Num 100, vx = Num (80967 / 4000), vy = Num 0, biasval = Num 0, scout_group = 0\<rparr>,
        \<lparr>x = Num (2997 / 20), y = Num 100, vx = Num (397 / 20), vy = Num 0, biasval = Num 0, scout_group = 0\<rparr>],
          [\<lparr>w_idx = 1, w_end = 1, w_pc = Scan 0, w_acc = acc0\<rparr>,
           \<lparr>w_idx = 2, w_end = 2, w_pc = Scan 0, w_acc = acc0\<rparr>])"
    unfolding start_2 run_schedule_append One_nat_def run_B
    by (simp only: sum.case run_B2)
  have c: "update_boids_parallel 2 (replicate 8 0 @ replicate 9 1 @ [0]) store_line (Num 1) =
     Inr ([\<lparr>x = Num (2403 / 20), y = Num 100, vx = Num (403 / 20), vy = Num 0, biasval = Num 0, scout_group = 0\<rparr>,
        \<lparr>x = Num (59943 / 400), y = Num 100, vx = Num (7943 / 400), vy = Num 0, biasval = Num 0, scout_group = 0\<rparr>],
          [\<lparr>w_idx = 1, w_end = 1, w_pc = Scan 0, w_acc = acc0\<rparr>,
           \<lparr>w_idx = 2, w_end = 2, w_pc = Scan 0, w_acc = acc0\<rparr>])"
    unfolding start_2 run_schedule_append One_nat_def run_C
    by (simp only: sum.case run_C2 run_C3)
  have j: "all_joined [\<lparr>w_idx = 1, w_end = 1, w_pc = Scan 0, w_acc = acc0\<rparr>,
                 \<lparr>w_idx = 2, w_end = 2, w_pc = Scan 0, w_acc = acc0\<rparr>]"
    by (simp add: all_joined_def)
  have oa: "update_boids_parallel 2 (replicate 9 0 @ [1, 1]) store_line (Num 1) =
     Inr ([\<lparr>x = Num (2403 / 20), y = Num 100, vx = Num (403 / 20), vy = Num 0, biasval = Num 0, scout_group = 0\<rparr>,
        \<lparr>x = Num 130, y = Num 100, vx = Num 20, vy = Num 0, biasval = Num 0, scout_group = 0\<rparr>],
          [\<lparr>w_idx = 1, w_end = 1, w_pc = Scan 0, w_acc = acc0\<rparr>,
           \<lparr>w_idx = 1, w_end = 2, w_pc = Scan 2, w_acc = \<lparr>xpos_avg = Num 0, ypos_avg = Num 0, xvel_avg = Num 0, yvel_avg = Num 0, neighboring_boids = 0, close_dx = Num (197 / 20), close_dy = Num 0\<rparr>\<rparr>])"
    unfolding start_2 run_schedule_append One_nat_def run_A
    by (simp only: sum.case see_A)
  have ob: "update_boids_parallel 2 [1, 1] store_line (Num 1) =
     Inr ([\<lparr>x = Num 100, y = Num 100, vx = Num 20, vy = Num 0, biasval = Num 0, scout_group = 0\<rparr>,
        \<lparr>x = Num 130, y = Num 100, vx = Num 20, vy = Num 0, biasval = Num 0, scout_group = 0\<rparr>],
          [\<lparr>w_idx = 0, w_end = 1, w_pc = Scan 0, w_acc = acc0\<rparr>,
           \<lparr>w_idx = 1, w_end = 2, w_pc = Scan 2, w_acc = \<lparr>xpos_avg = Num 100, ypos_avg = Num 100, xvel_avg = Num 20, yvel_avg = Num 0, neighboring_boids = 1, close_dx = Num 0, close_dy = Num 0\<rparr>\<rparr>])"
    unfolding start_2 One_nat_def by (rule see_B)
  have oc: "update_boids_parallel 2 (replicate 8 0 @ [1, 1]) store_line (Num 1) =
     Inr ([\<lparr>x = Num 100, y = Num 100, vx = Num (403 / 20), vy = Num 0, biasval = Num 0, scout_group = 0\<rparr>,
        \<lparr>x = Num 130, y = Num 100, vx = Num 20, vy = Num 0, biasval = Num 0, scout_group = 0\<rparr>],
          [\<lparr>w_idx = 0, w_end = 1, w_pc = Move, w_acc = \<lparr>xpos_avg = Num 130, ypos_avg = Num 100, xvel_avg = Num 20, yvel_avg = Num 0, neighboring_boids = 1, close_dx = Num 0, close_dy = Num 0\<rparr>\<rparr>,
           \<lparr>w_idx = 1, w_end = 2, w_pc = Scan 2, w_acc = \<lparr>xpos_avg = Num 100, ypos_avg = Num 100, xvel_avg = Num (403 / 20), yvel_avg = Num 0, neighboring_boids = 1, close_dx = Num 0, close_dy = Num 0\<rparr>\<rparr>])"
    unfolding start_2 run_schedule_append One_nat_def run_C
    by (simp only: sum.case see_C)
  have s: "update_boids_parallel 1 (replicate 9 0 @ replicate 9 0) store_line (Num 1) =
     Inr (update_boids store_line (Num 1),
          [\<lparr>w_idx = 2, w_end = 2, w_pc = Scan 0, w_acc = acc0\<rparr>])"
    unfolding start_1 run_schedule_append line_sequential run_single(1)
    by (simp only: sum.case run_single(2))
  have n1: "[\<lparr>x = Num (480967 / 4000), y = Num 100, vx = Num (80967 / 4000), vy = Num 0, biasval = Num 0, scout_group = 0\<rparr>,
        \<lparr>x = Num (2997 / 20), y = Num 100, vx = Num (397 / 20), vy = Num 0, biasval = Num 0, scout_group = 0\<rparr>]
       \<noteq> update_boids store_line (Num 1)"
    unfolding line_sequential by simp
  have n2: "[\<lparr>x = Num (2403 / 20), y = Num 100, vx = Num (403 / 20), vy = Num 0, biasval = Num 0, scout_group = 0\<rparr>,
        \<lparr>x = Num (59943 / 400), y = Num 100, vx = Num (7943 / 400), vy = Num 0, biasval = Num 0, scout_group = 0\<rparr>]
       \<noteq> update_boids store_line (Num 1)"
    unfolding line_sequential by simp
  have n3: "[\<lparr>x = Num (480967 / 4000), y = Num 100, vx = Num (80967 / 4000), vy = Num 0, biasval = Num 0, scout_group = 0\<rparr>,
        \<lparr>x = Num (2997 / 20), y = Num 100, vx = Num (397 / 20), vy = Num 0, biasval = Num 0, scout_group = 0\<rparr>]
       \<noteq> [\<lparr>x = Num (2403 / 20), y = Num 100, vx = Num (403 / 20), vy = Num 0, biasval = Num 0, scout_group = 0\<rparr>,
        \<lparr>x = Num (59943 / 400), y = Num 100, vx = Num (7943 / 400), vy = Num 0, biasval = Num 0, scout_group = 0\<rparr>]"
    by simp
  show ?thesis using a b c j line_sequential oa ob oc s n1 n2 n3 by (intro conjI)
qed

section \<open>Evaluating a rounding\<close>

lemma round_even_eqI:
  "of_int m - 1 / 2 < t \<Longrightarrow> t < of_int m + 1 / 2 \<Longrightarrow> round_even t = m"
proof -
  assume a: "of_int m - 1 / 2 < t" "t < of_int m + 1 / 2"
  show ?thesis
  proof (cases "of_int m \<le> t")
    case True
    then have "\<lfloor>t\<rfloor> = m" using a by (intro floor_unique) simp_all
    then show ?thesis using a by (simp add: round_even_def Let_def)
  next
    case False
    then have "\<lfloor>t\<rfloor> = m - 1" using a by (intro floor_unique) simp_all
    then show ?thesis using a False by (simp add: round_even_def Let_def)
  qed
qed

lemma round_even_of_int [simp]: "round_even (of_int m) = m"
  by (rule round_even_eqI) simp_all

lemma round_even_tie_down: "t = of_int m + 1 / 2 \<Longrightarrow> even m \<Longrightarrow> round_even t = m"
proof -
  assume a: "t = of_int m + 1 / 2" "even m"
  then have "\<lfloor>t\<rfloor> = m" by (intro floor_unique) simp_all
  then show ?thesis using a by (simp add: round_even_def Let_def)
qed


lemma round_even_0 [simp]: "round_even 0 = 0"
  using round_even_of_int [of 0] by simp

lemma powr_powi_2: "(2::real) powr real_of_int j = 2 powi j"
  by (simp add: powr_real_of_int')

lemma floor_log2_eqI:
  assumes "2 powi k \<le> \<bar>r\<bar>" and "\<bar>r\<bar> < 2 powi (k + 1)"
  shows "\<lfloor>log 2 \<bar>r\<bar>\<rfloor> = k"
proof -
  have pos: "0 < \<bar>r\<bar>" using assms(1) by (smt (verit) zero_less_power_int)
  have "2 powr real_of_int k \<le> \<bar>r\<bar>" using assms(1) by (simp only: powr_powi_2)
  moreover have "\<bar>r\<bar> < 2 powr (real_of_int k + 1)"
    using assms(2) powr_powi_2 [of "k + 1"] by simp
  ultimately show ?thesis using pos by (subst floor_log_eq_powr_iff) simp_all
qed

lemma ulp_exp_normal:
  "2 powi k \<le> \<bar>r\<bar> \<Longrightarrow> \<bar>r\<bar> < 2 powi (k + 1) \<Longrightarrow> - 126 \<le> k \<Longrightarrow> ulp_exp r = k - 23"
  by (simp add: ulp_exp_def floor_log2_eqI)

lemma ulp_exp_subnormal:
  assumes "r \<noteq> 0" and "\<bar>r\<bar> < 2 powi (- 126)"
  shows "ulp_exp r = - 149"
proof -
  have pos: "0 < \<bar>r\<bar>" using assms(1) by simp
  have "\<not> 2 powr real_of_int (- 126) \<le> \<bar>r\<bar>"
    using assms(2) by (simp only: powr_powi_2 not_le)
  then have "\<not> real_of_int (- 126) \<le> log 2 \<bar>r\<bar>"
    using pos by (subst le_log_iff) simp_all
  then have "log 2 \<bar>r\<bar> < real_of_int (- 126)" by simp
  then have "\<lfloor>log 2 \<bar>r\<bar>\<rfloor> < - 126" by (simp only: floor_less_iff)
  then show ?thesis unfolding ulp_exp_def by linarith
qed

lemma round32_normal:
  assumes "2 powi k \<le> \<bar>r\<bar>" and "\<bar>r\<bar> < 2 powi (k + 1)" and "- 126 \<le> k"
    and "round_even (r / 2 powi (k - 23)) = m"
    and "\<bar>of_int m * 2 powi (k - 23)\<bar> < (2 ^ 128 :: real)"
  shows "round32 r = Val (of_int m * 2 powi (k - 23))"
proof -
  have nz: "r \<noteq> 0" using assms(1) by (smt (verit) zero_less_power_int)
  have e: "ulp_exp r = k - 23" using assms(1-3) by (rule ulp_exp_normal)
  show ?thesis using nz assms(4,5) by (simp add: round32_def e Let_def abs_less_iff not_le)
qed

lemma round32_subnormal:
  assumes "\<bar>r\<bar> < 2 powi (- 126)" and "round_even (r / 2 powi (- 149)) = m"
    and "\<bar>of_int m * 2 powi (- 149)\<bar> < (2 ^ 128 :: real)"
  shows "round32 r = Val (of_int m * 2 powi (- 149))"
proof (cases "r = 0")
  case True
  then show ?thesis using assms(2) by (simp add: round32_def)
next
  case False
  then have e: "ulp_exp r = - 149" using assms(1) by (rule ulp_exp_subnormal)
  show ?thesis using False assms(2,3) by (simp add: round32_def e Let_def abs_less_iff not_le)
qed

lemma round32_0 [simp]: "round32 0 = Val 0"
  by (simp add: round32_def)

lemma round_even_numeral [simp]: "round_even (numeral n) = numeral n"
  using round_even_of_int [of "numeral n"] by simp

section \<open>The structure of a tick on binary32 numbers\<close>

subsection \<open>The prefix of a tick\<close>

lemma length_update_prefix32 [simp]: "length (update_prefix32 boids deltaTime k) = length boids"
  by (induction k) (simp_all add: update_prefix32_def)

lemma length_update_boids32 [simp]: "length (update_boids32 boids deltaTime) = length boids"
  by (simp add: update_boids32_def)

lemma update_prefix_Suc32:
  "update_prefix32 boids deltaTime (Suc k) =
     (update_prefix32 boids deltaTime k)[k := update_boid32 (update_prefix32 boids deltaTime k) k deltaTime]"
  by (simp add: update_prefix32_def)

lemma update_prefix_032 [simp]: "update_prefix32 boids deltaTime 0 = boids"
  by (simp add: update_prefix32_def)

subsection \<open>Fields each stage leaves alone\<close>

lemma cohesion_alignment_frame32 [simp]:
  "x32 (cohesion_alignment32 acc b) = x32 b" "y32 (cohesion_alignment32 acc b) = y32 b"
  "biasval32 (cohesion_alignment32 acc b) = biasval32 b"
  "scout_group32 (cohesion_alignment32 acc b) = scout_group32 b"
  by (simp_all add: cohesion_alignment32_def Let_def)

lemma separation_frame32 [simp]:
  "x32 (separation32 acc dt b) = x32 b" "y32 (separation32 acc dt b) = y32 b"
  "biasval32 (separation32 acc dt b) = biasval32 b"
  "scout_group32 (separation32 acc dt b) = scout_group32 b"
  by (simp_all add: separation32_def)

lemma boundary_turn_frame32 [simp]:
  "x32 (boundary_turn32 b) = x32 b" "y32 (boundary_turn32 b) = y32 b"
  "biasval32 (boundary_turn32 b) = biasval32 b"
  "scout_group32 (boundary_turn32 b) = scout_group32 b"
  by (simp_all add: boundary_turn32_def Let_def)

lemma bias_dynamics_frame32 [simp]:
  "x32 (bias_dynamics32 b) = x32 b" "y32 (bias_dynamics32 b) = y32 b"
  "vx32 (bias_dynamics32 b) = vx32 b" "vy32 (bias_dynamics32 b) = vy32 b"
  "scout_group32 (bias_dynamics32 b) = scout_group32 b"
  by (simp_all add: bias_dynamics32_def)

lemma apply_bias_frame32 [simp]:
  "x32 (apply_bias32 b) = x32 b" "y32 (apply_bias32 b) = y32 b"
  "vy32 (apply_bias32 b) = vy32 b" "biasval32 (apply_bias32 b) = biasval32 b"
  "scout_group32 (apply_bias32 b) = scout_group32 b"
  by (simp_all add: apply_bias32_def)

lemma speed_control_frame32 [simp]:
  "x32 (speed_control32 b) = x32 b" "y32 (speed_control32 b) = y32 b"
  "biasval32 (speed_control32 b) = biasval32 b"
  "scout_group32 (speed_control32 b) = scout_group32 b"
  by (simp_all add: speed_control32_def Let_def)

lemma advance_position_frame32 [simp]:
  "vx32 (advance_position32 dt b) = vx32 b" "vy32 (advance_position32 dt b) = vy32 b"
  "biasval32 (advance_position32 dt b) = biasval32 b"
  "scout_group32 (advance_position32 dt b) = scout_group32 b"
  by (simp_all add: advance_position32_def)

lemma update_boid_scout_group32 [simp]:
  "scout_group32 (update_boid32 st i dt) = scout_group32 (st ! i)"
  by (simp add: update_boid32_def pre_clamp32_def pre_bias32_def Let_def)

lemma pre_bias_frame32 [simp]:
  "x32 (pre_bias32 st i dt) = x32 (st ! i)" "y32 (pre_bias32 st i dt) = y32 (st ! i)"
  "biasval32 (pre_bias32 st i dt) = biasval32 (st ! i)"
  "scout_group32 (pre_bias32 st i dt) = scout_group32 (st ! i)"
  by (simp_all add: pre_bias32_def Let_def)

lemma update_boid_biasval32:
  "biasval32 (update_boid32 st i dt) = biasval32 (bias_dynamics32 (pre_bias32 st i dt))"
  by (simp add: update_boid32_def pre_clamp32_def)

subsection \<open>The boid at index i during a tick\<close>

lemma update_prefix_nth_later32:
  "k \<le> i \<Longrightarrow> update_prefix32 bs dt k ! i = bs ! i"
  by (induction k) (simp_all add: update_prefix_Suc32)

lemma update_prefix_nth_done32:
  "i < k \<Longrightarrow> i < length bs \<Longrightarrow>
   update_prefix32 bs dt k ! i = update_boid32 (update_prefix32 bs dt i) i dt"
proof (induction k)
  case 0
  then show ?case by simp
next
  case (Suc k)
  show ?case
  proof (cases "i = k")
    case True
    then show ?thesis using Suc.prems by (simp add: update_prefix_Suc32)
  next
    case False
    then have "i < k" using Suc.prems by simp
    then show ?thesis using Suc False by (simp add: update_prefix_Suc32)
  qed
qed

lemma update_boids_nth32:
  "i < length bs \<Longrightarrow>
   update_boids32 bs dt ! i = update_boid32 (update_prefix32 bs dt i) i dt"
  by (simp add: update_boids32_def update_prefix_nth_done32)

lemma run_Nil32 [simp]: "run32 bs [] = bs"
  by (simp add: run32_def)

lemma run_Cons32 [simp]: "run32 bs (dt # dts) = run32 (update_boids32 bs dt) dts"
  by (simp add: run32_def)

lemma length_run32 [simp]: "length (run32 bs dts) = length bs"
  by (induction dts arbitrary: bs) simp_all

lemma scan_single32: "scan32 [b] 0 = acc0_32"
  by (simp add: scan32_def)

section \<open>The scan computes the sums of the specification\<close>




subsection \<open>A test that the rounding decides\<close>









lemma exact_distance_store_tie:
  "(12582911 / 1048576) * (12582911 / 1048576) + 16 * 16 < (20 * 20 :: real)"
  by simp



section \<open>Values that are not finite\<close>

lemma add32_QNaN_right [simp]: "add32 a QNaN = QNaN"
  by (cases a) simp_all

lemma mul32_QNaN_right [simp]: "mul32 a QNaN = QNaN"
  by (cases a) simp_all

lemma sub32_QNaN [simp]: "sub32 QNaN b = QNaN" "sub32 a QNaN = QNaN"
  by (simp_all add: sub32_def)

lemma finite32_neg32 [simp]: "finite32 (neg32 a) = finite32 a"
  by (cases a) simp_all

lemma add32_not_finite:
  "\<not> finite32 a \<Longrightarrow> \<not> finite32 (add32 a b)" "\<not> finite32 b \<Longrightarrow> \<not> finite32 (add32 a b)"
  by (cases a; cases b; simp)+

lemma sub32_not_finite:
  "\<not> finite32 a \<Longrightarrow> \<not> finite32 (sub32 a b)" "\<not> finite32 b \<Longrightarrow> \<not> finite32 (sub32 a b)"
  by (simp_all add: sub32_def add32_not_finite)

lemma mul32_not_finite:
  "\<not> finite32 a \<Longrightarrow> \<not> finite32 (mul32 a b)" "\<not> finite32 b \<Longrightarrow> \<not> finite32 (mul32 a b)"
  by (cases a; cases b; simp)+

lemma div32_not_finite: "\<not> finite32 a \<Longrightarrow> \<not> finite32 (div32 a b)"
  by (cases a; cases b; simp)

lemma sqrt32_not_finite: "\<not> finite32 a \<Longrightarrow> \<not> finite32 (sqrt32 a)"
  by (cases a) simp_all

lemma finite32_speed_of32:
  assumes "finite32 (speed_of32 b)"
  shows "finite32 (vx32 b) \<and> finite32 (vy32 b)"
proof -
  have s: "finite32 (add32 (mul32 (vx32 b) (vx32 b)) (mul32 (vy32 b) (vy32 b)))"
    using assms sqrt32_not_finite unfolding speed_of32_def by blast
  then have "finite32 (mul32 (vx32 b) (vx32 b))" "finite32 (mul32 (vy32 b) (vy32 b))"
    using add32_not_finite by blast+
  then show ?thesis using mul32_not_finite by blast
qed

section \<open>A velocity that is not finite stays so\<close>

lemma speed_control_not_finite:
  "\<not> finite32 (vx32 b) \<Longrightarrow> \<not> finite32 (vx32 (speed_control32 b))"
  "\<not> finite32 (vy32 b) \<Longrightarrow> \<not> finite32 (vy32 (speed_control32 b))"
  by (simp_all add: speed_control32_def Let_def mul32_not_finite div32_not_finite)

lemma speed_control_QNaN:
  "vx32 b = QNaN \<Longrightarrow> vx32 (speed_control32 b) = QNaN"
  "vy32 b = QNaN \<Longrightarrow> vy32 (speed_control32 b) = QNaN"
  by (simp_all add: speed_control32_def Let_def)

lemma cohesion_alignment_not_finite:
  "\<not> finite32 (vx32 b) \<Longrightarrow> \<not> finite32 (vx32 (cohesion_alignment32 acc b))"
  "\<not> finite32 (vy32 b) \<Longrightarrow> \<not> finite32 (vy32 (cohesion_alignment32 acc b))"
  by (simp_all add: cohesion_alignment32_def Let_def add32_not_finite)

lemma separation_not_finite:
  "\<not> finite32 (vx32 b) \<Longrightarrow> \<not> finite32 (vx32 (separation32 acc dt b))"
  "\<not> finite32 (vy32 b) \<Longrightarrow> \<not> finite32 (vy32 (separation32 acc dt b))"
  by (simp_all add: separation32_def add32_not_finite)

lemma boundary_turn_not_finite:
  "\<not> finite32 (vx32 b) \<Longrightarrow> \<not> finite32 (vx32 (boundary_turn32 b))"
  "\<not> finite32 (vy32 b) \<Longrightarrow> \<not> finite32 (vy32 (boundary_turn32 b))"
  by (simp_all add: boundary_turn32_def Let_def add32_not_finite sub32_not_finite)

lemma apply_bias_not_finite:
  "\<not> finite32 (vx32 b) \<Longrightarrow> \<not> finite32 (vx32 (apply_bias32 b))"
  by (simp add: apply_bias32_def add32_not_finite sub32_not_finite mul32_not_finite)

lemma pre_clamp_not_finite:
  "\<not> finite32 (vx32 (st ! i)) \<Longrightarrow> \<not> finite32 (vx32 (pre_clamp32 st i dt))"
  "\<not> finite32 (vy32 (st ! i)) \<Longrightarrow> \<not> finite32 (vy32 (pre_clamp32 st i dt))"
  by (simp_all add: pre_clamp32_def pre_bias32_def Let_def apply_bias_not_finite
      boundary_turn_not_finite separation_not_finite cohesion_alignment_not_finite)

lemma cohesion_alignment_QNaN:
  "vx32 b = QNaN \<Longrightarrow> vx32 (cohesion_alignment32 acc b) = QNaN"
  "vy32 b = QNaN \<Longrightarrow> vy32 (cohesion_alignment32 acc b) = QNaN"
  by (simp_all add: cohesion_alignment32_def Let_def)

lemma separation_QNaN:
  "vx32 b = QNaN \<Longrightarrow> vx32 (separation32 acc dt b) = QNaN"
  "vy32 b = QNaN \<Longrightarrow> vy32 (separation32 acc dt b) = QNaN"
  by (simp_all add: separation32_def)

lemma boundary_turn_QNaN:
  "vx32 b = QNaN \<Longrightarrow> vx32 (boundary_turn32 b) = QNaN"
  "vy32 b = QNaN \<Longrightarrow> vy32 (boundary_turn32 b) = QNaN"
  by (simp_all add: boundary_turn32_def Let_def)

lemma apply_bias_QNaN: "vx32 b = QNaN \<Longrightarrow> vx32 (apply_bias32 b) = QNaN"
  by (simp add: apply_bias32_def)

lemma pre_clamp_QNaN:
  "vx32 (st ! i) = QNaN \<Longrightarrow> vx32 (pre_clamp32 st i dt) = QNaN"
  "vy32 (st ! i) = QNaN \<Longrightarrow> vy32 (pre_clamp32 st i dt) = QNaN"
  by (simp_all add: pre_clamp32_def pre_bias32_def Let_def apply_bias_QNaN
      boundary_turn_QNaN separation_QNaN cohesion_alignment_QNaN)

lemma update_boid_velocity32:
  "vx32 (update_boid32 st i dt) = vx32 (speed_control32 (pre_clamp32 st i dt))"
  "vy32 (update_boid32 st i dt) = vy32 (speed_control32 (pre_clamp32 st i dt))"
  by (simp_all add: update_boid32_def)

lemma update_boid_position32:
  "x32 (update_boid32 st i dt) =
     add32 (x32 (st ! i)) (mul32 (vx32 (speed_control32 (pre_clamp32 st i dt))) dt)"
  "y32 (update_boid32 st i dt) =
     add32 (y32 (st ! i)) (mul32 (vy32 (speed_control32 (pre_clamp32 st i dt))) dt)"
  by (simp_all add: update_boid32_def advance_position32_def pre_clamp32_def)

lemma update_boid_not_finite:
  "\<not> finite32 (vx32 (st ! i)) \<Longrightarrow> \<not> finite32 (vx32 (update_boid32 st i dt))"
  "\<not> finite32 (vy32 (st ! i)) \<Longrightarrow> \<not> finite32 (vy32 (update_boid32 st i dt))"
  "\<not> finite32 (x32 (st ! i)) \<Longrightarrow> \<not> finite32 (x32 (update_boid32 st i dt))"
  "\<not> finite32 (y32 (st ! i)) \<Longrightarrow> \<not> finite32 (y32 (update_boid32 st i dt))"
  by (simp_all add: update_boid_velocity32 update_boid_position32 speed_control_not_finite
      pre_clamp_not_finite add32_not_finite)

lemma update_boid_QNaN:
  "vx32 (st ! i) = QNaN \<Longrightarrow> vx32 (update_boid32 st i dt) = QNaN"
  "vy32 (st ! i) = QNaN \<Longrightarrow> vy32 (update_boid32 st i dt) = QNaN"
  "x32 (st ! i) = QNaN \<Longrightarrow> x32 (update_boid32 st i dt) = QNaN"
  "y32 (st ! i) = QNaN \<Longrightarrow> y32 (update_boid32 st i dt) = QNaN"
  by (simp_all add: update_boid_velocity32 update_boid_position32 speed_control_QNaN
      pre_clamp_QNaN)

text \<open>A property of one boid that its own update keeps is kept by every run.\<close>

lemma run_invariant32:
  assumes step: "\<And>st dt. P (st ! i) \<Longrightarrow> P (update_boid32 st i dt)"
    and "i < length bs" and "P (bs ! i)"
  shows "P (run32 bs dts ! i)"
  using assms(2,3)
proof (induction dts arbitrary: bs)
  case Nil
  then show ?case by simp
next
  case (Cons dt dts)
  have "update_prefix32 bs dt i ! i = bs ! i" by (simp add: update_prefix_nth_later32)
  then have "P (update_boid32 (update_prefix32 bs dt i) i dt)"
    using Cons.prems(2) step [of "update_prefix32 bs dt i" dt] by simp
  then have "P (update_boids32 bs dt ! i)"
    using Cons.prems(1) by (simp add: update_boids_nth32)
  moreover have "i < length (update_boids32 bs dt)" using Cons.prems(1) by simp
  ultimately show ?case using Cons.IH by simp
qed

section \<open>The speed control at speed zero\<close>

lemma clamp32_zero: "clamp32 (Val 0) MIN_SPEED32 MAX_SPEED32 = Val 10"
  by (simp add: clamp32_def MIN_SPEED32_def MAX_SPEED32_def)

lemma speed_control_zero:
  assumes "speed_of32 p = Val 0" and "vx32 p = Val a" and "vy32 p = Val b"
  shows "vx32 (speed_control32 p) = (if a = 0 then QNaN else if 0 < a then PInf else NInf)"
    and "vy32 (speed_control32 p) = (if b = 0 then QNaN else if 0 < b then PInf else NInf)"
  using assms by (simp_all add: speed_control32_def Let_def clamp32_zero) (simp_all add: MIN_SPEED32_def)

text \<open>
  C1 (amended). If the speed with which a boid reaches the speed control is exactly 0,
  then the clamp branch is taken (\<open>0 < MIN_SPEED\<close>) and its two rescales divide by the
  zero speed. The velocity components \<open>a\<close> and \<open>b\<close> of the boid are numbers then, and
  each rescale gives not-a-number for a component that is 0 and the infinity of its sign
  for a component that is not 0 (one whose square is rounded to 0). After this tick and
  after any number of later ticks, neither component of the velocity nor of the position
  is a finite number: nothing brings the boid back. A component that was 0 gives
  not-a-number in the velocity and in the position, for ever; so a boid at rest ends
  with all four not-a-number.
\<close>

theorem zero_speed_not_finite_forever:
  assumes "i < length boids"
    and "speed_of32 (pre_clamp32 (update_prefix32 boids dt i) i dt) = Val 0"
  shows "less32 (speed_of32 (pre_clamp32 (update_prefix32 boids dt i) i dt)) MIN_SPEED32
    \<and> (\<exists>a b. vx32 (pre_clamp32 (update_prefix32 boids dt i) i dt) = Val a
           \<and> vy32 (pre_clamp32 (update_prefix32 boids dt i) i dt) = Val b
           \<and> vx32 (update_boids32 boids dt ! i) =
               (if a = 0 then QNaN else if 0 < a then PInf else NInf)
           \<and> vy32 (update_boids32 boids dt ! i) =
               (if b = 0 then QNaN else if 0 < b then PInf else NInf))
    \<and> \<not> finite32 (vx32 (run32 (update_boids32 boids dt) dts ! i))
    \<and> \<not> finite32 (vy32 (run32 (update_boids32 boids dt) dts ! i))
    \<and> \<not> finite32 (x32 (run32 (update_boids32 boids dt) dts ! i))
    \<and> \<not> finite32 (y32 (run32 (update_boids32 boids dt) dts ! i))
    \<and> (vx32 (pre_clamp32 (update_prefix32 boids dt i) i dt) = Val 0 \<longrightarrow>
          vx32 (run32 (update_boids32 boids dt) dts ! i) = QNaN
        \<and> x32 (run32 (update_boids32 boids dt) dts ! i) = QNaN)
    \<and> (vy32 (pre_clamp32 (update_prefix32 boids dt i) i dt) = Val 0 \<longrightarrow>
          vy32 (run32 (update_boids32 boids dt) dts ! i) = QNaN
        \<and> y32 (run32 (update_boids32 boids dt) dts ! i) = QNaN)"
proof -
  let ?st = "update_prefix32 boids dt i"
  let ?p = "pre_clamp32 ?st i dt"
  let ?new = "update_boids32 boids dt"
  have new: "?new ! i = update_boid32 ?st i dt" using assms(1) by (simp add: update_boids_nth32)
  have len: "i < length ?new" using assms(1) by simp
  have "finite32 (vx32 ?p) \<and> finite32 (vy32 ?p)"
    using assms(2) by (intro finite32_speed_of32) simp
  then obtain a b where ab: "vx32 ?p = Val a" "vy32 ?p = Val b"
    by (cases "vx32 ?p"; cases "vy32 ?p") simp_all
  have c1: "less32 (speed_of32 ?p) MIN_SPEED32" using assms(2) by (simp add: MIN_SPEED32_def)
  have vx1: "vx32 (?new ! i) = (if a = 0 then QNaN else if 0 < a then PInf else NInf)"
    unfolding new update_boid_velocity32 using assms(2) ab by (rule speed_control_zero(1))
  have vy1: "vy32 (?new ! i) = (if b = 0 then QNaN else if 0 < b then PInf else NInf)"
    unfolding new update_boid_velocity32 using assms(2) ab by (rule speed_control_zero(2))
  have nvx: "\<not> finite32 (vx32 (?new ! i))" using vx1 by simp
  have nvy: "\<not> finite32 (vy32 (?new ! i))" using vy1 by simp
  have nx: "\<not> finite32 (x32 (?new ! i))"
    using nvx unfolding new update_boid_velocity32 update_boid_position32
    by (simp add: add32_not_finite mul32_not_finite)
  have ny: "\<not> finite32 (y32 (?new ! i))"
    using nvy unfolding new update_boid_velocity32 update_boid_position32
    by (simp add: add32_not_finite mul32_not_finite)
  have f1: "\<not> finite32 (vx32 (run32 ?new dts ! i))"
    using len nvx by (intro run_invariant32 [where P = "\<lambda>b. \<not> finite32 (vx32 b)"])
      (simp_all add: update_boid_not_finite)
  have f2: "\<not> finite32 (vy32 (run32 ?new dts ! i))"
    using len nvy by (intro run_invariant32 [where P = "\<lambda>b. \<not> finite32 (vy32 b)"])
      (simp_all add: update_boid_not_finite)
  have f3: "\<not> finite32 (x32 (run32 ?new dts ! i))"
    using len nx by (intro run_invariant32 [where P = "\<lambda>b. \<not> finite32 (x32 b)"])
      (simp_all add: update_boid_not_finite)
  have f4: "\<not> finite32 (y32 (run32 ?new dts ! i))"
    using len ny by (intro run_invariant32 [where P = "\<lambda>b. \<not> finite32 (y32 b)"])
      (simp_all add: update_boid_not_finite)
  have q1: "vx32 (run32 ?new dts ! i) = QNaN \<and> x32 (run32 ?new dts ! i) = QNaN"
    if "vx32 ?p = Val 0"
  proof -
    have a0: "a = 0" using that ab by simp
    have v: "vx32 (?new ! i) = QNaN" using vx1 a0 by simp
    then have x: "x32 (?new ! i) = QNaN"
      unfolding new update_boid_velocity32 update_boid_position32 by simp
    have "vx32 (run32 ?new dts ! i) = QNaN"
      using len v by (intro run_invariant32 [where P = "\<lambda>b. vx32 b = QNaN"])
        (simp_all add: update_boid_QNaN)
    moreover have "x32 (run32 ?new dts ! i) = QNaN"
      using len x by (intro run_invariant32 [where P = "\<lambda>b. x32 b = QNaN"])
        (simp_all add: update_boid_QNaN)
    ultimately show ?thesis by simp
  qed
  have q2: "vy32 (run32 ?new dts ! i) = QNaN \<and> y32 (run32 ?new dts ! i) = QNaN"
    if "vy32 ?p = Val 0"
  proof -
    have b0: "b = 0" using that ab by simp
    have v: "vy32 (?new ! i) = QNaN" using vy1 b0 by simp
    then have y: "y32 (?new ! i) = QNaN"
      unfolding new update_boid_velocity32 update_boid_position32 by simp
    have "vy32 (run32 ?new dts ! i) = QNaN"
      using len v by (intro run_invariant32 [where P = "\<lambda>b. vy32 b = QNaN"])
        (simp_all add: update_boid_QNaN)
    moreover have "y32 (run32 ?new dts ! i) = QNaN"
      using len y by (intro run_invariant32 [where P = "\<lambda>b. y32 b = QNaN"])
        (simp_all add: update_boid_QNaN)
    ultimately show ?thesis by simp
  qed
  show ?thesis using c1 ab vx1 vy1 f1 f2 f3 f4 q1 q2 by blast
qed

subsection \<open>The boid at rest and the boid that is almost at rest\<close>

lemma AVOID_FACTOR32_value: "AVOID_FACTOR32 = Val (13421773 / 268435456)"
  unfolding AVOID_FACTOR32_def
  using round32_normal [of "- 5" "5 / 100" 13421773]
  by (simp add: power_int_minus round_even_eqI)

lemma round32_tiny:
  "round32 (1 / 1267650600228229401496703205376) = Val (1 / 1267650600228229401496703205376)"
  using round32_normal [of "- 100" "1 / 1267650600228229401496703205376" 8388608]
  by (simp add: power_int_minus)

lemma round32_tiny_square:
  "round32 (1 / 1606938044258990275541962092341162602522202993782792835301376) = Val 0"
  using round32_subnormal [of "1 / 1606938044258990275541962092341162602522202993782792835301376" 0]
  by (simp add: power_int_minus round_even_eqI)

lemma less32_QNaN_right [simp]: "less32 a QNaN = False"
  by (cases a) simp_all

lemma update_boids_single32: "update_boids32 [b] dt = [update_boid32 [b] 0 dt]"
  by (simp add: update_boids32_def update_prefix32_def)

lemma pre_bias_single32:
  "pre_bias32 [b] 0 dt = boundary_turn32 (separation32 acc0_32 dt b)"
  by (simp add: pre_bias32_def scan_single32 cohesion_alignment32_def acc0_32_def)

lemma pre_clamp_store_rest32: "pre_clamp32 store_rest32 0 (Val 1) = store_rest32 ! 0"
proof -
  have s: "separation32 acc0_32 (Val 1) (store_rest32 ! 0) = store_rest32 ! 0"
    by (simp add: store_rest32_def separation32_def acc0_32_def AVOID_FACTOR32_value)
  have t: "boundary_turn32 (store_rest32 ! 0) = store_rest32 ! 0"
    by (simp add: store_rest32_def boundary_turn32_def WIDTH32_def HEIGHT32_def)
  have b: "apply_bias32 (bias_dynamics32 (store_rest32 ! 0)) = store_rest32 ! 0"
    by (simp add: store_rest32_def apply_bias32_def bias_dynamics32_def)
  have "pre_bias32 store_rest32 0 (Val 1) = store_rest32 ! 0"
    using pre_bias_single32 [of "store_rest32 ! 0" "Val 1"] s t by (simp add: store_rest32_def)
  then show ?thesis using b by (simp add: pre_clamp32_def)
qed

lemma speed_store_rest32: "speed_of32 (store_rest32 ! 0) = Val 0"
  by (simp add: store_rest32_def speed_of32_def)

lemma pre_clamp_store_tiny: "pre_clamp32 store_tiny 0 (Val 1) = store_tiny ! 0"
proof -
  have s: "separation32 acc0_32 (Val 1) (store_tiny ! 0) = store_tiny ! 0"
    by (simp add: store_tiny_def separation32_def acc0_32_def AVOID_FACTOR32_value round32_tiny)
  have t: "boundary_turn32 (store_tiny ! 0) = store_tiny ! 0"
    by (simp add: store_tiny_def boundary_turn32_def WIDTH32_def HEIGHT32_def)
  have b: "apply_bias32 (bias_dynamics32 (store_tiny ! 0)) = store_tiny ! 0"
    by (simp add: store_tiny_def apply_bias32_def bias_dynamics32_def)
  have "pre_bias32 store_tiny 0 (Val 1) = store_tiny ! 0"
    using pre_bias_single32 [of "store_tiny ! 0" "Val 1"] s t by (simp add: store_tiny_def)
  then show ?thesis using b by (simp add: pre_clamp32_def)
qed

lemma speed_store_tiny: "speed_of32 (store_tiny ! 0) = Val 0"
  by (simp add: store_tiny_def speed_of32_def round32_tiny_square)

lemma tick_store_tiny: "update_boids32 store_tiny (Val 1) = [boid_tiny_after]"
proof -
  have c: "speed_control32 (store_tiny ! 0) = (store_tiny ! 0)\<lparr>vx32 := PInf, vy32 := QNaN\<rparr>"
    using speed_store_tiny
    by (simp add: speed_control32_def Let_def clamp32_zero) (simp add: store_tiny_def MIN_SPEED32_def)
  have "update_boid32 store_tiny 0 (Val 1) = boid_tiny_after"
    by (simp add: update_boid32_def pre_clamp_store_tiny c)
       (simp add: store_tiny_def advance_position32_def boid_tiny_after_def)
  then show ?thesis using update_boids_single32 [of "store_tiny ! 0" "Val 1"]
    by (simp add: store_tiny_def)
qed

lemma tick_boid_tiny_after: "update_boids32 [boid_tiny_after] (Val 1) = [boid_tiny_after]"
proof -
  have s: "separation32 acc0_32 (Val 1) boid_tiny_after = boid_tiny_after"
    by (simp add: boid_tiny_after_def separation32_def acc0_32_def AVOID_FACTOR32_value)
  have t: "boundary_turn32 boid_tiny_after = boid_tiny_after"
    by (simp add: boid_tiny_after_def boundary_turn32_def WIDTH32_def HEIGHT32_def
        TURN_FACTOR32_def sub32_def)
  have b: "apply_bias32 (bias_dynamics32 boid_tiny_after) = boid_tiny_after"
    by (simp add: boid_tiny_after_def apply_bias32_def bias_dynamics32_def)
  have p: "pre_clamp32 [boid_tiny_after] 0 (Val 1) = boid_tiny_after"
    using pre_bias_single32 [of boid_tiny_after "Val 1"] s t b by (simp add: pre_clamp32_def)
  have sp: "speed_of32 boid_tiny_after = QNaN"
    by (simp add: boid_tiny_after_def speed_of32_def)
  have c: "speed_control32 boid_tiny_after = boid_tiny_after"
    using sp by (simp add: speed_control32_def Let_def)
  have "update_boid32 [boid_tiny_after] 0 (Val 1) = boid_tiny_after"
    by (simp add: update_boid32_def p c) (simp add: boid_tiny_after_def advance_position32_def)
  then show ?thesis by (simp add: update_boids_single32)
qed

theorem zero_speed_not_finite_forever_witness:
  "0 < length store_rest32
   \<and> speed_of32 (pre_clamp32 (update_prefix32 store_rest32 (Val 1) 0) 0 (Val 1)) = Val 0
   \<and> vx32 (run32 (update_boids32 store_rest32 (Val 1)) [Val 1, Val 1] ! 0) = QNaN
   \<and> vy32 (run32 (update_boids32 store_rest32 (Val 1)) [Val 1, Val 1] ! 0) = QNaN
   \<and> x32 (run32 (update_boids32 store_rest32 (Val 1)) [Val 1, Val 1] ! 0) = QNaN
   \<and> y32 (run32 (update_boids32 store_rest32 (Val 1)) [Val 1, Val 1] ! 0) = QNaN"
proof -
  have h1: "0 < length store_rest32" by (simp add: store_rest32_def)
  have h2: "speed_of32 (pre_clamp32 (update_prefix32 store_rest32 (Val 1) 0) 0 (Val 1)) = Val 0"
    by (simp add: pre_clamp_store_rest32 speed_store_rest32)
  have v: "vx32 (pre_clamp32 (update_prefix32 store_rest32 (Val 1) 0) 0 (Val 1)) = Val 0"
          "vy32 (pre_clamp32 (update_prefix32 store_rest32 (Val 1) 0) 0 (Val 1)) = Val 0"
    by (simp_all add: pre_clamp_store_rest32) (simp_all add: store_rest32_def)
  from zero_speed_not_finite_forever [OF h1 h2, of "[Val 1, Val 1]"] show ?thesis
    using h1 h2 v by simp
qed

text \<open>
  C1 as stated (not-a-number velocity and then position) fails: the boid of
  \<open>store_tiny\<close> reaches the speed control with \<open>vx = 2^-100\<close> and \<open>vy = 0\<close>, the square
  of \<open>vx\<close> is rounded to 0 and the speed is exactly 0; the rescale of \<open>vx\<close> is then
  \<open>2^-100 / 0\<close>, an infinity, and \<open>vx\<close> and \<open>x\<close> are infinite after this tick and after
  the next two, not not-a-number.
\<close>

theorem zero_speed_infinite_counterexample:
  "speed_of32 (pre_clamp32 (update_prefix32 store_tiny (Val 1) 0) 0 (Val 1)) = Val 0
   \<and> vx32 (update_boids32 store_tiny (Val 1) ! 0) = PInf
   \<and> x32 (update_boids32 store_tiny (Val 1) ! 0) = PInf
   \<and> vx32 (run32 (update_boids32 store_tiny (Val 1)) [Val 1, Val 1] ! 0) = PInf
   \<and> x32 (run32 (update_boids32 store_tiny (Val 1)) [Val 1, Val 1] ! 0) = PInf
   \<and> vx32 (run32 (update_boids32 store_tiny (Val 1)) [Val 1, Val 1] ! 0) \<noteq> QNaN
   \<and> x32 (run32 (update_boids32 store_tiny (Val 1)) [Val 1, Val 1] ! 0) \<noteq> QNaN"
  by (simp add: pre_clamp_store_tiny speed_store_tiny tick_store_tiny tick_boid_tiny_after)
     (simp add: boid_tiny_after_def)

end
